theory Spec2Isabelle
  imports Main
begin

section \<open>Values shared by all actions\<close>

text \<open>
  A JavaScript string is a sequence of UTF-16 code units; \<^verbatim>\<open>length\<close>, \<^verbatim>\<open>slice\<close>, \<^verbatim>\<open>includes\<close>
  and the regular expressions of the program (none has the flag \<^verbatim>\<open>u\<close>) work on code
  units. A code unit is a number from 0 to 65535. \<^verbatim>\<open>lit\<close> turns an ASCII literal of the
  source into its code units.
\<close>

type_synonym code_unit = int
type_synonym jstring = "code_unit list"

definition cu :: "char \<Rightarrow> code_unit" where
  "cu c = of_char c"

definition lit :: "string \<Rightarrow> jstring" where
  "lit s = map cu s"

text \<open>
  Handles of the browser engine are opaque to the program; they are numbered here.
  Everything thrown in the program is an \<^verbatim>\<open>Error\<close> object, of which only the message is
  ever read (\<^verbatim>\<open>error instanceof Error ? error.message : String(error)\<close>).
\<close>

type_synonym browser = nat
type_synonym page = nat

datatype err = Error (message: jstring)

definition errorMessage :: "err \<Rightarrow> jstring" where
  "errorMessage e = message e"

text \<open>
  The module state of \<^verbatim>\<open>chrome-actions\<close> (\<^verbatim>\<open>globalBrowser\<close>, \<^verbatim>\<open>globalPages\<close>) together
  with what the program has written to its collaborators: the console, the reporting
  sink (\<^verbatim>\<open>location.addSystemMessage\<close>), the rendering and image slots of the location,
  and the timed waits it has performed (in milliseconds). A JavaScript \<^verbatim>\<open>Map\<close> keeps
  insertion order, so \<^verbatim>\<open>globalPages\<close> is an association list.
\<close>

record state =
  globalBrowser :: "browser option"
  globalPages :: "(jstring \<times> page) list"
  console :: "jstring list"
  sink :: "jstring list"
  rendering :: "jstring option"
  image :: "jstring option"
  slept :: "int list"

definition initial :: state where
  "initial = \<lparr>globalBrowser = None, globalPages = [], console = [], sink = [],
     rendering = None, image = None, slept = []\<rparr>"

subsection \<open>The operations of a JavaScript Map that the program uses\<close>

definition map_has :: "jstring \<Rightarrow> (jstring \<times> page) list \<Rightarrow> bool" where
  "map_has k m = (k \<in> set (map fst m))"

definition map_get :: "jstring \<Rightarrow> (jstring \<times> page) list \<Rightarrow> page option" where
  "map_get k m = map_of m k"

fun map_set :: "jstring \<Rightarrow> page \<Rightarrow> (jstring \<times> page) list \<Rightarrow> (jstring \<times> page) list" where
  "map_set k v [] = [(k, v)]"
| "map_set k v ((k', v') # m) = (if k' = k then (k, v) # m else (k', v') # map_set k v m)"

definition map_delete :: "jstring \<Rightarrow> (jstring \<times> page) list \<Rightarrow> (jstring \<times> page) list" where
  "map_delete k m = filter (\<lambda>kv. fst kv \<noteq> k) m"

definition map_first_value :: "(jstring \<times> page) list \<Rightarrow> page option" where
  "map_first_value m = (case m of [] \<Rightarrow> None | kv # _ \<Rightarrow> Some (snd kv))"

subsection \<open>The collaborators, as seen from the program\<close>

text \<open>
  Each call into the engine (puppeteer), the file system, the location repository or
  the reporting sink either returns or throws; a call whose script never settles ends
  in the engine's own time-out, which is a throw. What a collaborator does is not
  decided by the program, so it is a parameter of every operation. The case mapping
  of \<^verbatim>\<open>String.prototype.toLowerCase\<close> is the Unicode table of the page's runtime, not
  part of the program, and is a parameter as well.
\<close>

datatype element = Element (textContent: jstring) (outerHTML: jstring) (children: "element list")

record document =
  doc_main :: "element option"
  doc_head_meta :: "jstring list"
  doc_body :: "element option"
  doc_bodies :: "element list"

text \<open>The three scripts that the actions hand to \<^verbatim>\<open>page.evaluate\<close>.\<close>

datatype script = ScrollToBottom | ScrollBy int | SetSnapshotOpts jstring

record engine =
  existsSync :: "jstring \<Rightarrow> bool"
  USERNAME :: "jstring option"
  puppeteer_launch :: "jstring \<Rightarrow> err + browser"
  browser_close :: "browser \<Rightarrow> err option"
  browser_newPage :: "browser \<Rightarrow> err + page"
  page_goto :: "page \<Rightarrow> jstring \<Rightarrow> err option"
  page_bringToFront :: "page \<Rightarrow> err option"
  page_close :: "page \<Rightarrow> err option"
  page_query :: "page \<Rightarrow> jstring \<Rightarrow> err + bool"
  page_click :: "page \<Rightarrow> jstring \<Rightarrow> err option"
  page_title :: "page \<Rightarrow> err + jstring"
  page_waitForFunction :: "page \<Rightarrow> err option"
  page_setViewport :: "page \<Rightarrow> nat \<Rightarrow> nat \<Rightarrow> err option"
  page_screenshot :: "page \<Rightarrow> nat \<Rightarrow> err + jstring"
  page_evaluate :: "page \<Rightarrow> script \<Rightarrow> err option"
  page_count :: "page \<Rightarrow> jstring \<Rightarrow> err + nat"
  page_document :: "page \<Rightarrow> err + document"
  toLowerCase :: "jstring \<Rightarrow> jstring"
  updateLocationStateRendering :: "jstring \<Rightarrow> err option"
  updateLocationStateImage :: "jstring \<Rightarrow> err option"
  location_addSystemMessage :: "jstring \<Rightarrow> err option"

subsection \<open>Console and reporting sink\<close>

text \<open>The two signs in the console messages: U+274C and U+2139.\<close>

definition cross_mark :: jstring where
  "cross_mark = [0x274C]"

definition info_mark :: jstring where
  "info_mark = [0x2139]"

definition console_log :: "jstring \<Rightarrow> state \<Rightarrow> state" where
  "console_log line s = s\<lparr>console := console s @ [line]\<rparr>"

definition console_error :: "jstring \<Rightarrow> jstring \<Rightarrow> state \<Rightarrow> state" where
  "console_error what msg s = s\<lparr>console := console s @ [what @ lit '' '' @ msg]\<rparr>"

text \<open>
  \<^verbatim>\<open>await this.location.addSystemMessage(line)\<close>: the sink takes the line, or the call
  throws and nothing has been pushed.
\<close>

definition addSystemMessage :: "engine \<Rightarrow> jstring \<Rightarrow> state \<Rightarrow> (err + unit) \<times> state" where
  "addSystemMessage eng line s =
     (case location_addSystemMessage eng line of
        Some e \<Rightarrow> (Inl e, s)
      | None \<Rightarrow> (Inr (), s\<lparr>sink := sink s @ [line]\<rparr>))"

definition tagged :: "jstring \<Rightarrow> jstring \<Rightarrow> jstring" where
  "tagged agentName text = lit ''['' @ agentName @ lit ''] '' @ text"

definition truthy :: "jstring option \<Rightarrow> bool" where
  "truthy x = (case x of None \<Rightarrow> False | Some v \<Rightarrow> v \<noteq> [])"

text \<open>The \<^verbatim>\<open>catch\<close> block of the registry functions: log the message, rethrow.\<close>

definition catch_log :: "jstring \<Rightarrow> (err + unit) \<times> state \<Rightarrow> (err + unit) \<times> state" where
  "catch_log what r =
     (case r of
        (Inl e, s) \<Rightarrow> (Inl e, console_error what (errorMessage e) s)
      | (Inr u, s) \<Rightarrow> (Inr u, s))"

text \<open>
  The \<^verbatim>\<open>try\<close>/\<open>catch\<close> of every action's \<^verbatim>\<open>execute\<close>: an error of the body is reported
  as a line to the sink. The report is the last statement of the \<^verbatim>\<open>catch\<close> block and
  is not guarded: if the sink throws there, \<^verbatim>\<open>execute\<close> throws.
\<close>

definition catch_report ::
  "jstring \<Rightarrow> engine \<Rightarrow> jstring \<Rightarrow> (err + unit) \<times> state \<Rightarrow> (err + unit) \<times> state" where
  "catch_report agentName eng what r =
     (case r of
        (Inl e, s) \<Rightarrow> addSystemMessage eng (tagged agentName (what @ errorMessage e)) s
      | (Inr u, s) \<Rightarrow> (Inr u, s))"

section \<open>Strings and regular expressions\<close>

fun join :: "jstring \<Rightarrow> jstring list \<Rightarrow> jstring" where
  "join sep [] = []"
| "join sep [x] = x"
| "join sep (x # y # ys) = x @ sep @ join sep (y # ys)"

fun starts_with :: "jstring \<Rightarrow> jstring \<Rightarrow> bool" where
  "starts_with s [] = True"
| "starts_with [] (a # as) = False"
| "starts_with (c # cs) (a # as) = (c = a \<and> starts_with cs as)"

text \<open>\<^verbatim>\<open>String.prototype.includes\<close>: a search from every position of the string.\<close>

fun str_includes :: "jstring \<Rightarrow> jstring \<Rightarrow> bool" where
  "str_includes [] sub = (sub = [])"
| "str_includes (c # cs) sub = (starts_with (c # cs) sub \<or> str_includes cs sub)"

text \<open>
  Numbers are integers here. \<^verbatim>\<open>show_int\<close> is the decimal text of a template literal,
  \<^verbatim>\<open>show_thousandths n\<close> the text of \<^verbatim>\<open>n / 1000\<close>.
\<close>

definition digit :: "nat \<Rightarrow> code_unit" where
  "digit d = cu CHR ''0'' + int d"

fun show_nat :: "nat \<Rightarrow> jstring" where
  "show_nat n = (if n < 10 then [digit n] else show_nat (n div 10) @ [digit (n mod 10)])"

declare show_nat.simps [simp del]

definition show_int :: "int \<Rightarrow> jstring" where
  "show_int i = (if i < 0 then lit ''-'' @ show_nat (nat (- i)) else show_nat (nat i))"

definition show_thousandths :: "int \<Rightarrow> jstring" where
  "show_thousandths i =
     (let a = nat \<bar>i\<bar>; r = a mod 1000;
          digits = [digit (r div 100), digit (r div 10 mod 10), digit (r mod 10)]
      in (if i < 0 then lit ''-'' else []) @ show_nat (a div 1000) @
         (if r = 0 then [] else lit ''.'' @ rev (dropWhile (\<lambda>c. c = cu CHR ''0'') (rev digits))))"

subsection \<open>A backtracking matcher for the regular expressions of the program\<close>

text \<open>
  \<^verbatim>\<open>rmatch ic r (s, cp)\<close> lists, in the order in which a backtracking matcher tries
  them, the ways in which \<^verbatim>\<open>r\<close> matches a prefix of \<^verbatim>\<open>s\<close>: what is left of \<^verbatim>\<open>s\<close> and the
  captured groups. \<^verbatim>\<open>ic\<close> is the flag \<^verbatim>\<open>i\<close>. An iteration of \<^verbatim>\<open>*\<close> that consumes nothing
  is rejected, as in ECMAScript.

  Under the flag \<^verbatim>\<open>i\<close> two code units match when their canonical forms are equal. Every
  letter in the expressions of the program, and so every letter a group of theirs can
  capture, is an ASCII letter, and the only code units whose canonical form is that of
  an ASCII letter are the letter itself in its two cases (a code unit from 128 on is
  never mapped into ASCII). \<^verbatim>\<open>same_char\<close> is that comparison.
\<close>

type_synonym caps = "(nat \<times> jstring) list"

datatype re =
    Chr code_unit
  | Cls "code_unit \<Rightarrow> bool"
  | Eps
  | Cat re re
  | Alt re re
  | Star re
  | Lazy re
  | Grp nat re
  | Ref nat

definition lower_ascii :: "code_unit \<Rightarrow> code_unit" where
  "lower_ascii c = (if cu CHR ''A'' \<le> c \<and> c \<le> cu CHR ''Z'' then c + 32 else c)"

definition same_char :: "bool \<Rightarrow> code_unit \<Rightarrow> code_unit \<Rightarrow> bool" where
  "same_char ic a b = (if ic then lower_ascii a = lower_ascii b else a = b)"

fun match_lit :: "bool \<Rightarrow> jstring \<Rightarrow> jstring \<Rightarrow> jstring option" where
  "match_lit ic [] s = Some s"
| "match_lit ic (a # as) [] = None"
| "match_lit ic (a # as) (c # cs) = (if same_char ic a c then match_lit ic as cs else None)"

function rmatch :: "bool \<Rightarrow> re \<Rightarrow> jstring \<times> caps \<Rightarrow> (jstring \<times> caps) list" where
  "rmatch ic (Chr a) (s, cp) =
     (case s of [] \<Rightarrow> [] | c # cs \<Rightarrow> if same_char ic a c then [(cs, cp)] else [])"
| "rmatch ic (Cls P) (s, cp) =
     (case s of [] \<Rightarrow> [] | c # cs \<Rightarrow> if P c then [(cs, cp)] else [])"
| "rmatch ic Eps st = [st]"
| "rmatch ic (Cat r1 r2) st = concat (map (rmatch ic r2) (rmatch ic r1 st))"
| "rmatch ic (Alt r1 r2) st = rmatch ic r1 st @ rmatch ic r2 st"
| "rmatch ic (Star r) (s, cp) =
     concat (map (rmatch ic (Star r))
               (filter (\<lambda>st'. length (fst st') < length s) (rmatch ic r (s, cp)))) @ [(s, cp)]"
| "rmatch ic (Lazy r) (s, cp) =
     (s, cp) # concat (map (rmatch ic (Lazy r))
               (filter (\<lambda>st'. length (fst st') < length s) (rmatch ic r (s, cp))))"
| "rmatch ic (Grp i r) (s, cp) =
     map (\<lambda>st'. (fst st', (i, take (length s - length (fst st')) s) # snd st')) (rmatch ic r (s, cp))"
| "rmatch ic (Ref i) (s, cp) =
     (case map_of cp i of
        None \<Rightarrow> [(s, cp)]
      | Some w \<Rightarrow> (case match_lit ic w s of None \<Rightarrow> [] | Some s' \<Rightarrow> [(s', cp)]))"
  by pat_completeness auto
termination
  by (relation "measures [\<lambda>(ic, r, st). size r, \<lambda>(ic, r, st). length (fst st)]") auto

declare rmatch.simps [simp del]

definition Str :: "string \<Rightarrow> re" where
  "Str w = foldr (\<lambda>c r. Cat (Chr (cu c)) r) w Eps"

definition Plus :: "re \<Rightarrow> re" where
  "Plus r = Cat r (Star r)"

text \<open>
  \<^verbatim>\<open>String.prototype.replace\<close> with a global regular expression: the leftmost match from
  the current position is replaced by \<^verbatim>\<open>f\<close> of its captures and the search goes on behind
  it; where nothing matches the code unit is kept; after an empty match the search
  moves on by one code unit.
\<close>

function replace_all :: "bool \<Rightarrow> re \<Rightarrow> (caps \<Rightarrow> jstring) \<Rightarrow> jstring \<Rightarrow> jstring" where
  "replace_all ic r f [] = (case rmatch ic r ([], []) of [] \<Rightarrow> [] | st # _ \<Rightarrow> f (snd st))"
| "replace_all ic r f (c # cs) =
     (case rmatch ic r (c # cs, []) of
        [] \<Rightarrow> c # replace_all ic r f cs
      | st # _ \<Rightarrow>
          if length (fst st) < length (c # cs) then f (snd st) @ replace_all ic r f (fst st)
          else f (snd st) @ c # replace_all ic r f cs)"
  by pat_completeness auto
termination
  by (relation "measure (\<lambda>(ic, r, f, s). length s)") auto

subsection \<open>The sanitizer\<close>

text \<open>
  The pieces of the regular expressions of \<^verbatim>\<open>cleanHtml\<close>: \<^verbatim>\<open>\s\<close>, \<^verbatim>\<open>[^>]\<close>, \<^verbatim>\<open>[^;]\<close>,
  \<^verbatim>\<open>[^"]\<close>, \<^verbatim>\<open>[^=]\<close>, \<^verbatim>\<open>[A-Za-z0-9+/=\s]\<close>, and \<^verbatim>\<open>.\<close> under the flag \<^verbatim>\<open>s\<close> (the same as
  \<^verbatim>\<open>[\s\S]\<close>); \<^verbatim>\<open><tag[^>]*>[\s\S]*?</tag>\<close> (\<^verbatim>\<open>block\<close>),
  \<^verbatim>\<open>kind[^;]+;base64,[A-Za-z0-9+/=\s]+\<close> (\<^verbatim>\<open>data_uri\<close>) and \<^verbatim>\<open>\s*name="[^"]*"\<close> (\<^verbatim>\<open>attr\<close>).

  \<^verbatim>\<open>\s\<close> and \<^verbatim>\<open>trim()\<close> take as white space the ECMAScript white space and line
  terminators: U+0009 to U+000D, U+0020, U+00A0, U+1680, U+2000 to U+200A, U+2028,
  U+2029, U+202F, U+205F, U+3000 and U+FEFF.
\<close>

definition Seq :: "re list \<Rightarrow> re" where
  "Seq rs = foldr Cat rs Eps"

definition AltL :: "re list \<Rightarrow> re" where
  "AltL rs = foldr Alt (butlast rs) (last rs)"

definition is_space :: "code_unit \<Rightarrow> bool" where
  "is_space c =
     ((0x0009 \<le> c \<and> c \<le> 0x000D) \<or> c = 0x0020 \<or> c = 0x00A0 \<or> c = 0x1680 \<or>
      (0x2000 \<le> c \<and> c \<le> 0x200A) \<or> c = 0x2028 \<or> c = 0x2029 \<or> c = 0x202F \<or>
      c = 0x205F \<or> c = 0x3000 \<or> c = 0xFEFF)"

definition any_char :: re where
  "any_char = Cls (\<lambda>c. True)"

definition not_gt :: re where
  "not_gt = Cls (\<lambda>c. c \<noteq> cu CHR ''>'')"

definition not_semi :: re where
  "not_semi = Cls (\<lambda>c. c \<noteq> cu CHR '';'')"

definition not_dq :: re where
  "not_dq = Cls (\<lambda>c. c \<noteq> cu CHR 0x22)"

definition not_eq :: re where
  "not_eq = Cls (\<lambda>c. c \<noteq> cu CHR ''='')"

definition space :: re where
  "space = Cls is_space"

definition b64 :: re where
  "b64 = Cls (\<lambda>c. (cu CHR ''A'' \<le> c \<and> c \<le> cu CHR ''Z'') \<or> (cu CHR ''a'' \<le> c \<and> c \<le> cu CHR ''z'') \<or>
                  (cu CHR ''0'' \<le> c \<and> c \<le> cu CHR ''9'') \<or> c = cu CHR ''+'' \<or> c = cu CHR ''/'' \<or>
                  c = cu CHR ''='' \<or> is_space c)"

definition dq :: string where
  "dq = [CHR 0x22]"

definition block :: "string \<Rightarrow> re" where
  "block tag = Seq [Str (''<'' @ tag), Star not_gt, Chr (cu CHR ''>''), Lazy any_char, Str (''</'' @ tag @ ''>'')]"

definition data_uri :: "string \<Rightarrow> re" where
  "data_uri kind = Seq [Str kind, Plus not_semi, Str '';base64,'', Plus b64]"

definition attr :: "string \<Rightarrow> re" where
  "attr name = Seq [Star space, Str (name @ ''='' @ dq), Star not_dq, Str dq]"

definition trim :: "jstring \<Rightarrow> jstring" where
  "trim s = rev (dropWhile is_space (rev (dropWhile is_space s)))"

definition capture :: "nat \<Rightarrow> caps \<Rightarrow> jstring" where
  "capture i cp = (case map_of cp i of None \<Rightarrow> [] | Some w \<Rightarrow> w)"

text \<open>
  One \<^verbatim>\<open>html = html.replace(regex, replacement)\<close>: the flag \<^verbatim>\<open>i\<close> of the expression, the
  expression, and the replacement as a function of the captured groups.
\<close>

type_synonym replacement = "bool \<times> re \<times> (caps \<Rightarrow> jstring)"

definition removal :: "bool \<Rightarrow> re \<Rightarrow> replacement" where
  "removal ic r = (ic, r, \<lambda>cp. [])"

definition apply_replacement :: "replacement \<Rightarrow> jstring \<Rightarrow> jstring" where
  "apply_replacement rp html = (case rp of (ic, r, f) \<Rightarrow> replace_all ic r f html)"

text \<open>
  The replacements of \<^verbatim>\<open>cleanHtml\<close> up to the white space, one entry for each
  \<^verbatim>\<open>html.replace\<close> of the source and in its order.
\<close>

definition markup_replacements :: "replacement list" where
  "markup_replacements =
    [removal True (block ''script''),
     removal True (block ''style''),
     removal True (Seq [Str ''<link'', Star not_gt, Chr (cu CHR ''>'')]),
     removal True (block ''noscript''),
     removal False (Seq [Str ''<!--'', Lazy any_char, Str ''-->'']),
     removal False (data_uri ''data:image/''),
     removal False (data_uri ''data:video/''),
     removal False (data_uri ''data:audio/''),
     removal False (data_uri ''data:text/javascript''),
     removal False (data_uri ''data:text/css''),
     removal False (data_uri ''data:''),
     removal False (Seq [Str ''charset=utf-8;base64,'', Plus b64]),
     removal True (attr ''src''),
     removal True (attr ''srcset''),
     (True,
      Seq [Str ''<a'', Grp 1 (Lazy not_gt), Str (''href='' @ dq), Grp 2 (Star not_dq), Str dq,
           Grp 3 (Lazy not_gt), Chr (cu CHR ''>'')],
      \<lambda>cp. lit (''<a href='' @ dq) @ capture 2 cp @ lit (dq @ ''>'')),
     removal True (attr ''class''),
     removal True (attr ''style''),
     removal True
       (Seq [Star space,
             Grp 1 (AltL [Str ''role'', Str ''tabindex'', Str ''aria-label'', Str ''aria-hidden'',
                          Str ''aria-describedby'', Cat (Str ''data-'') (Star not_eq),
                          Str ''crossorigin'', Str ''nonce'', Str ''async'', Str ''defer'']),
             Str (''='' @ dq), Star not_dq, Str dq]),
     removal True (block ''svg''),
     removal True
       (Seq [Chr (cu CHR ''<''), Grp 1 (AltL [Str ''nav'', Str ''footer'', Str ''header'']), Star not_gt,
             Chr (cu CHR ''>''), Lazy any_char, Str ''</'', Ref 1, Chr (cu CHR ''>'')]),
     removal True
       (Seq [Chr (cu CHR ''<''), Star not_gt,
             AltL [Str ''navigation'', Str ''nav'', Str ''footer'', Str ''header'', Str ''sidebar'',
                   Str ''menu'', Str ''toolbar'', Str ''breadcrumb''],
             Star not_gt, Chr (cu CHR ''>''), Lazy any_char, Str ''</'', Star not_gt, Chr (cu CHR ''>'')]),
     removal True
       (Seq [Chr (cu CHR ''<''), Grp 1 (AltL [Str ''div'', Str ''span'']), Star not_gt, Chr (cu CHR ''>''),
             Star space, Str ''</'', Ref 1, Chr (cu CHR ''>'')])]"

text \<open>\<^verbatim>\<open>html.replace(/\s+/g, ' ')\<close>\<close>

definition collapse :: "jstring \<Rightarrow> jstring" where
  "collapse s = replace_all False (Plus space) (\<lambda>cp. lit '' '') s"

text \<open>\<^verbatim>\<open>cleanHtml\<close>: the replacements in order, then \<^verbatim>\<open>.replace(/\s+/g, ' ').trim()\<close>.\<close>

definition cleanHtml :: "jstring \<Rightarrow> jstring" where
  "cleanHtml html = trim (collapse (fold apply_replacement markup_replacements html))"

section \<open>Tab registry\<close>

definition getChromePage :: "jstring option \<Rightarrow> state \<Rightarrow> page option" where
  "getChromePage tabName s =
     (if \<not> truthy tabName then map_first_value (globalPages s)
      else map_get (the tabName) (globalPages s))"

definition getChromePageNames :: "state \<Rightarrow> jstring list" where
  "getChromePageNames s = map fst (globalPages s)"

definition backslash :: jstring where
  "backslash = [0x5C]"

definition path_of :: "jstring list \<Rightarrow> jstring" where
  "path_of parts = concat (map (\<lambda>p. p @ backslash) (butlast parts)) @ last parts"

definition possiblePaths :: "engine \<Rightarrow> jstring list" where
  "possiblePaths eng =
     (let user = (case USERNAME eng of None \<Rightarrow> lit ''undefined'' | Some u \<Rightarrow> u) in
      [path_of [lit ''C:'', lit ''Program Files'', lit ''Google'', lit ''Chrome'', lit ''Application'',
                lit ''chrome.exe''],
       path_of [lit ''C:'', lit ''Program Files (x86)'', lit ''Google'', lit ''Chrome'', lit ''Application'',
                lit ''chrome.exe''],
       path_of [lit ''C:'', lit ''Users'', user, lit ''AppData'', lit ''Local'', lit ''Google'', lit ''Chrome'',
                lit ''Application'', lit ''chrome.exe''],
       path_of [lit ''C:'', lit ''Users'', user, lit ''AppData'', lit ''Local'', lit ''Google'', lit ''Chrome'',
                lit ''Application'', lit ''chrome.exe'']])"

definition findChromeExecutable :: "engine \<Rightarrow> jstring option" where
  "findChromeExecutable eng = List.find (existsSync eng) (possiblePaths eng)"

definition launch_body :: "engine \<Rightarrow> jstring \<Rightarrow> jstring \<Rightarrow> state \<Rightarrow> (err + unit) \<times> state" where
  "launch_body eng url tabName s0 =
     (case (case globalBrowser s0 of
              None \<Rightarrow> Inr s0
            | Some b \<Rightarrow>
                (case browser_close eng b of
                   Some e \<Rightarrow> Inl e
                 | None \<Rightarrow> Inr (s0\<lparr>globalBrowser := None, globalPages := []\<rparr>))) of
        Inl e \<Rightarrow> (Inl e, s0)
      | Inr s1 \<Rightarrow>
          (case findChromeExecutable eng of
             None \<Rightarrow>
               (Inl (Error (lit ''Chrome executable not found. Please make sure Google Chrome is installed.'')),
                s1)
           | Some chromePath \<Rightarrow>
               (case puppeteer_launch eng chromePath of
                  Inl e \<Rightarrow> (Inl e, s1)
                | Inr b \<Rightarrow>
                    (let s2 = s1\<lparr>globalBrowser := Some b\<rparr> in
                     case browser_newPage eng b of
                       Inl e \<Rightarrow> (Inl e, s2)
                     | Inr newPage \<Rightarrow>
                         (let s3 = s2\<lparr>globalPages := map_set tabName newPage (globalPages s2)\<rparr> in
                          case (if url \<noteq> [] then page_goto eng newPage url else None) of
                            Some e \<Rightarrow> (Inl e, s3)
                          | None \<Rightarrow>
                              (Inr (),
                               console_log (lit ''Chrome browser launched successfully with tab: '' @ tabName)
                                 s3))))))"

definition launchChromeBrowser ::
  "engine \<Rightarrow> jstring option \<Rightarrow> jstring option \<Rightarrow> state \<Rightarrow> (err + unit) \<times> state" where
  "launchChromeBrowser eng url tabName s =
     catch_log (cross_mark @ lit '' Error launching Chrome browser:'')
       (launch_body eng
          (case url of None \<Rightarrow> lit ''https://www.instagram.com/'' | Some u \<Rightarrow> u)
          (case tabName of None \<Rightarrow> lit ''default'' | Some t \<Rightarrow> t) s)"

definition closeChromeBrowser :: "engine \<Rightarrow> state \<Rightarrow> (err + unit) \<times> state" where
  "closeChromeBrowser eng s =
     catch_log (cross_mark @ lit '' Error closing browser:'')
       (case globalBrowser s of
          Some b \<Rightarrow>
            (case browser_close eng b of
               Some e \<Rightarrow> (Inl e, s)
             | None \<Rightarrow>
                 (Inr (),
                  console_log (lit ''Chrome browser closed successfully'')
                    (s\<lparr>globalBrowser := None, globalPages := []\<rparr>)))
        | None \<Rightarrow> (Inr (), console_log (info_mark @ lit ''No browser instance was running'') s))"

definition createNewTab ::
  "engine \<Rightarrow> jstring \<Rightarrow> jstring option \<Rightarrow> state \<Rightarrow> (err + unit) \<times> state" where
  "createNewTab eng tabName url s =
     catch_log (cross_mark @ lit '' Error creating new tab:'')
       (case globalBrowser s of
          None \<Rightarrow> (Inl (Error (lit ''Browser not launched. Please launch browser first.'')), s)
        | Some b \<Rightarrow>
            if map_has tabName (globalPages s)
            then (Inl (Error (lit (''Tab with name '' @ dq) @ tabName @ lit (dq @ '' already exists.''))), s)
            else
              (case browser_newPage eng b of
                 Inl e \<Rightarrow> (Inl e, s)
               | Inr newPage \<Rightarrow>
                   (let s1 = s\<lparr>globalPages := map_set tabName newPage (globalPages s)\<rparr> in
                    case (if truthy url then page_goto eng newPage (the url) else None) of
                      Some e \<Rightarrow> (Inl e, s1)
                    | None \<Rightarrow> (Inr (), console_log (lit ''New tab created: '' @ tabName) s1))))"

definition switchToTab :: "engine \<Rightarrow> jstring \<Rightarrow> state \<Rightarrow> (err + unit) \<times> state" where
  "switchToTab eng tabName s =
     catch_log (cross_mark @ lit '' Error switching to tab:'')
       (case map_get tabName (globalPages s) of
          None \<Rightarrow> (Inl (Error (lit (''Tab '' @ dq) @ tabName @ lit (dq @ '' not found.''))), s)
        | Some p \<Rightarrow>
            (case page_bringToFront eng p of
               Some e \<Rightarrow> (Inl e, s)
             | None \<Rightarrow> (Inr (), s)))"

definition closeTab :: "engine \<Rightarrow> jstring \<Rightarrow> state \<Rightarrow> (err + unit) \<times> state" where
  "closeTab eng tabName s =
     catch_log (cross_mark @ lit '' Error closing tab:'')
       (case map_get tabName (globalPages s) of
          None \<Rightarrow> (Inl (Error (lit (''Tab '' @ dq) @ tabName @ lit (dq @ '' not found.''))), s)
        | Some p \<Rightarrow>
            (case page_close eng p of
               Some e \<Rightarrow> (Inl e, s)
             | None \<Rightarrow>
                 (Inr (),
                  console_log (lit ''Tab closed: '' @ tabName)
                    (s\<lparr>globalPages := map_delete tabName (globalPages s)\<rparr>))))"

section \<open>Actions\<close>

text \<open>
  Every \<^verbatim>\<open>execute\<close> has the shape \<^verbatim>\<open>try { body } catch (error) { report }\<close>. A body is a
  function from the state to a result (\<^verbatim>\<open>Inl\<close>: it threw) and the state it left.
\<close>

definition report :: "jstring \<Rightarrow> engine \<Rightarrow> jstring \<Rightarrow> state \<Rightarrow> (err + unit) \<times> state" where
  "report agentName eng text s = addSystemMessage eng (tagged agentName text) s"

definition sleep :: "int \<Rightarrow> state \<Rightarrow> state" where
  "sleep ms s = s\<lparr>slept := slept s @ [ms]\<rparr>"

text \<open>\<^verbatim>\<open>if (action.waitAfterMs && action.waitAfterMs > 0) await sleep\<close>\<close>

definition settle :: "int option \<Rightarrow> state \<Rightarrow> state" where
  "settle waitAfterMs s =
     (case waitAfterMs of
        None \<Rightarrow> s
      | Some ms \<Rightarrow> if ms \<noteq> 0 \<and> ms > 0 then sleep ms s else s)"

definition require_page :: "jstring option \<Rightarrow> state \<Rightarrow> err + page" where
  "require_page tabName s =
     (case getChromePage tabName s of
        None \<Rightarrow> Inl (Error (lit ''Browser not launched. Please run launch_browser first.''))
      | Some p \<Rightarrow> Inr p)"

subsection \<open>Tab management\<close>

definition ChromeLaunchAction_execute ::
  "jstring \<Rightarrow> engine \<Rightarrow> jstring option \<Rightarrow> jstring option \<Rightarrow> state \<Rightarrow> (err + unit) \<times> state" where
  "ChromeLaunchAction_execute agentName eng url tabName s =
     catch_report agentName eng (lit ''Error launching Chrome: '')
       (case launchChromeBrowser eng url tabName s of
          (Inl e, s1) \<Rightarrow> (Inl e, s1)
        | (Inr u, s1) \<Rightarrow>
            report agentName eng
              (lit ''Successfully launched Chrome browser in visible mode for supervision.'' @
               (if truthy url then lit '' Navigated to: '' @ the url else []) @
               (if truthy tabName then lit '' Created tab: '' @ the tabName else [])) s1)"

definition ChromeCloseAction_execute :: "jstring \<Rightarrow> engine \<Rightarrow> state \<Rightarrow> (err + unit) \<times> state" where
  "ChromeCloseAction_execute agentName eng s =
     catch_report agentName eng (lit ''Error closing browser: '')
       (case closeChromeBrowser eng s of
          (Inl e, s1) \<Rightarrow> (Inl e, s1)
        | (Inr u, s1) \<Rightarrow> report agentName eng (lit ''Successfully closed Chrome browser'') s1)"

definition CreateTabAction_execute ::
  "jstring \<Rightarrow> engine \<Rightarrow> jstring \<Rightarrow> jstring option \<Rightarrow> state \<Rightarrow> (err + unit) \<times> state" where
  "CreateTabAction_execute agentName eng tabName url s =
     catch_report agentName eng (lit ''Error creating tab: '')
       (case createNewTab eng tabName url s of
          (Inl e, s1) \<Rightarrow> (Inl e, s1)
        | (Inr u, s1) \<Rightarrow>
            report agentName eng
              (lit ''Successfully created new tab: '' @ tabName @
               (if truthy url then lit '' and navigated to: '' @ the url else [])) s1)"

definition SwitchTabAction_execute ::
  "jstring \<Rightarrow> engine \<Rightarrow> jstring \<Rightarrow> state \<Rightarrow> (err + unit) \<times> state" where
  "SwitchTabAction_execute agentName eng tabName s =
     catch_report agentName eng (lit ''Error switching tab: '')
       (case switchToTab eng tabName s of
          (Inl e, s1) \<Rightarrow> (Inl e, s1)
        | (Inr u, s1) \<Rightarrow> report agentName eng (lit ''Successfully switched to tab: '' @ tabName) s1)"

definition CloseTabAction_execute ::
  "jstring \<Rightarrow> engine \<Rightarrow> jstring \<Rightarrow> state \<Rightarrow> (err + unit) \<times> state" where
  "CloseTabAction_execute agentName eng tabName s =
     catch_report agentName eng (lit ''Error closing tab: '')
       (case closeTab eng tabName s of
          (Inl e, s1) \<Rightarrow> (Inl e, s1)
        | (Inr u, s1) \<Rightarrow> report agentName eng (lit ''Successfully closed tab: '' @ tabName) s1)"

definition ListTabsAction_execute :: "jstring \<Rightarrow> engine \<Rightarrow> state \<Rightarrow> (err + unit) \<times> state" where
  "ListTabsAction_execute agentName eng s =
     catch_report agentName eng (lit ''Error listing tabs: '')
       (let tabNames = getChromePageNames s in
        if length tabNames = 0 then report agentName eng (lit ''No tabs are currently open.'') s
        else report agentName eng (lit ''Currently open tabs: '' @ join (lit '', '') tabNames) s)"

subsection \<open>Interaction\<close>

definition BrowserClickAction_execute ::
  "jstring \<Rightarrow> engine \<Rightarrow> jstring \<Rightarrow> int option \<Rightarrow> jstring option \<Rightarrow> state \<Rightarrow> (err + unit) \<times> state" where
  "BrowserClickAction_execute agentName eng selector waitAfterMs tabName s =
     catch_report agentName eng (lit ''Error clicking element: '')
       (case require_page tabName s of
          Inl e \<Rightarrow> (Inl e, s)
        | Inr p \<Rightarrow>
            (case page_query eng p selector of
               Inl e \<Rightarrow> (Inl e, s)
             | Inr exists \<Rightarrow>
                 if \<not> exists
                 then report agentName eng (lit ''Element not found for selector: '' @ selector) s
                 else
                   (case page_click eng p selector of
                      Some e \<Rightarrow> (Inl e, s)
                    | None \<Rightarrow>
                        report agentName eng (lit ''Clicked element: '' @ selector) (settle waitAfterMs s))))"

datatype direction = Down | Up

text \<open>
  The scroll action hands one of two scripts to \<^verbatim>\<open>page.evaluate\<close>: the scroll-to-bottom
  loop, or \<^verbatim>\<open>window.scrollBy(0, delta)\<close>. What the loop does in the page is the subject
  of the section on scrolling below.
\<close>

definition BrowserScrollAction_execute ::
  "jstring \<Rightarrow> engine \<Rightarrow> direction option \<Rightarrow> int option \<Rightarrow> bool option \<Rightarrow> int option \<Rightarrow>
     jstring option \<Rightarrow> state \<Rightarrow> (err + unit) \<times> state" where
  "BrowserScrollAction_execute agentName eng direction pixels toBottom waitAfterMs tabName s =
     catch_report agentName eng (lit ''Error scrolling page: '')
       (case require_page tabName s of
          Inl e \<Rightarrow> (Inl e, s)
        | Inr p \<Rightarrow>
            (let delta = (if direction = Some Up then - 1 else 1) *
                         (case pixels of None \<Rightarrow> 1000 | Some px \<Rightarrow> px)
             in case page_evaluate eng p (if toBottom = Some True then ScrollToBottom else ScrollBy delta) of
                  Some e \<Rightarrow> (Inl e, s)
                | None \<Rightarrow>
                    (let opts = (if toBottom = Some True then [lit ''toBottom: true'']
                                 else [lit ''direction: '' @ (if direction = Some Up then lit ''up'' else lit ''down''),
                                       lit ''pixels: '' @ show_int (case pixels of None \<Rightarrow> 1000 | Some px \<Rightarrow> px)])
                     in report agentName eng (lit ''Scrolled page ('' @ join (lit '', '') opts @ lit '')'')
                          (settle waitAfterMs s))))"

text \<open>\<^verbatim>\<open>const waitTime = action.milliseconds || 3000\<close>\<close>

definition waitTime :: "int option \<Rightarrow> int" where
  "waitTime milliseconds =
     (case milliseconds of None \<Rightarrow> 3000 | Some ms \<Rightarrow> if ms = 0 then 3000 else ms)"

definition BrowserWaitAction_execute ::
  "jstring \<Rightarrow> engine \<Rightarrow> int option \<Rightarrow> state \<Rightarrow> (err + unit) \<times> state" where
  "BrowserWaitAction_execute agentName eng milliseconds s =
     catch_report agentName eng (lit ''Error during wait: '')
       (report agentName eng
          (lit ''Waited for '' @ show_int (waitTime milliseconds) @ lit ''ms ('' @
           show_thousandths (waitTime milliseconds) @ lit ''s)'')
          (sleep (waitTime milliseconds) s))"

subsection \<open>Navigation\<close>

definition BrowserNavigateAction_execute ::
  "jstring \<Rightarrow> engine \<Rightarrow> jstring \<Rightarrow> jstring option \<Rightarrow> state \<Rightarrow> (err + unit) \<times> state" where
  "BrowserNavigateAction_execute agentName eng url tabName s =
     catch_report agentName eng (lit ''Error navigating to '' @ url @ lit '': '')
       (case require_page tabName s of
          Inl e \<Rightarrow> (Inl e, s)
        | Inr p \<Rightarrow>
            (case page_goto eng p url of
               Some e \<Rightarrow> (Inl e, s)
             | None \<Rightarrow>
                 (case page_title eng p of
                    Inl e \<Rightarrow> (Inl e, s)
                  | Inr title \<Rightarrow>
                      report agentName eng
                        (lit ''Successfully navigated to '' @ url @ lit ''. Page title: '' @ title) s)))"

definition BrowserWaitForNavigationAction_execute ::
  "jstring \<Rightarrow> engine \<Rightarrow> jstring option \<Rightarrow> jstring option \<Rightarrow> state \<Rightarrow> (err + unit) \<times> state" where
  "BrowserWaitForNavigationAction_execute agentName eng strategy tabName s =
     catch_report agentName eng (lit ''Error waiting for navigation: '')
       (case require_page tabName s of
          Inl e \<Rightarrow> (Inl e, s)
        | Inr p \<Rightarrow>
            (case page_waitForFunction eng p of
               Some e \<Rightarrow> (Inl e, s)
             | None \<Rightarrow>
                 report agentName eng
                   (lit ''Navigation completed with strategy: '' @
                    (if truthy strategy then the strategy else lit ''all''))
                   (sleep 3000 s)))"

subsection \<open>Observation\<close>

definition ViewScreenAction_execute ::
  "jstring \<Rightarrow> engine \<Rightarrow> jstring option \<Rightarrow> jstring option \<Rightarrow> state \<Rightarrow> (err + unit) \<times> state" where
  "ViewScreenAction_execute agentName eng input tabName s =
     catch_report agentName eng (lit ''Error taking screenshot: '')
       (case require_page tabName s of
          Inl e \<Rightarrow> (Inl e, s)
        | Inr p \<Rightarrow>
            (let quality = (case input of None \<Rightarrow> 80
                            | Some i \<Rightarrow> if str_includes i (lit ''high'') then 100 else (80 :: nat));
                 maxWidth = (case input of None \<Rightarrow> 1200
                             | Some i \<Rightarrow> if str_includes i (lit ''small'') then 800 else (1200 :: nat))
             in case page_setViewport eng p maxWidth 600 of
                  Some e \<Rightarrow> (Inl e, s)
                | None \<Rightarrow>
                    (case page_screenshot eng p quality of
                       Inl e \<Rightarrow> (Inl e, s)
                     | Inr base64 \<Rightarrow>
                         (case updateLocationStateImage eng (lit ''data:image/jpeg;base64,'' @ base64) of
                            Some e \<Rightarrow> (Inl e, s)
                          | None \<Rightarrow>
                              report agentName eng (lit ''Screenshot captured and saved'')
                                (s\<lparr>image := Some (lit ''data:image/jpeg;base64,'' @ base64)\<rparr>)))))"

text \<open>
  The callback that \<^verbatim>\<open>browser_snapshot_dom\<close> runs in the page. Its first argument is
  \<^verbatim>\<open>String.prototype.toLowerCase\<close> of the page's runtime.
\<close>

definition containsSearchTerm :: "(jstring \<Rightarrow> jstring) \<Rightarrow> element \<Rightarrow> jstring \<Rightarrow> bool" where
  "containsSearchTerm lower el term =
     (if term = [] then True
      else (let text = lower (textContent el);
                termLower = lower term;
                hashtagTerm = lit ''#'' @ termLower
            in str_includes text termLower \<or> str_includes text hashtagTerm))"

text \<open>\<^verbatim>\<open>querySelectorAll('*')\<close>: the descendants of an element, in document order.\<close>

fun querySelectorAll :: "element \<Rightarrow> element list" where
  "querySelectorAll (Element t h cs) = concat (map (\<lambda>c. c # querySelectorAll c) cs)"

definition newline :: jstring where
  "newline = [0x0A]"

definition baseElements :: "document \<Rightarrow> element list" where
  "baseElements doc = (case doc_main doc of Some mainEl \<Rightarrow> [mainEl] | None \<Rightarrow> doc_bodies doc)"

definition with_head :: "document \<Rightarrow> jstring \<Rightarrow> jstring" where
  "with_head doc body =
     (let headMeta = join newline (doc_head_meta doc)
      in if headMeta \<noteq> [] then headMeta @ newline @ newline @ body else body)"

definition snapshot_matches :: "(jstring \<Rightarrow> jstring) \<Rightarrow> element \<Rightarrow> jstring \<Rightarrow> element list" where
  "snapshot_matches lower scopeRoot searchTerm =
     filter (\<lambda>el. containsSearchTerm lower el searchTerm) (querySelectorAll scopeRoot)"

definition snapshot_html :: "(jstring \<Rightarrow> jstring) \<Rightarrow> document \<Rightarrow> jstring \<Rightarrow> err + jstring" where
  "snapshot_html lower doc searchTerm =
     (if searchTerm \<noteq> [] then
        (case (case baseElements doc of el # _ \<Rightarrow> Some el | [] \<Rightarrow> doc_body doc) of
           None \<Rightarrow> Inl (Error (lit ''Cannot read properties of null''))
         | Some scopeRoot \<Rightarrow>
             (let matches = snapshot_matches lower scopeRoot searchTerm;
                  body = join (newline @ newline) (map (\<lambda>el. cleanHtml (outerHTML el)) matches)
              in Inr (with_head doc body)))
      else
        (let body = join (newline @ newline) (map (\<lambda>el. cleanHtml (outerHTML el)) (baseElements doc))
         in Inr (with_head doc body)))"

definition limit :: nat where
  "limit = 100000"

text \<open>\<^verbatim>\<open>html.length > limit ? html.slice(0, limit) : html\<close>, in code units.\<close>

definition truncated :: "jstring \<Rightarrow> jstring" where
  "truncated html = (if length html > limit then take limit html else html)"

definition BrowserSnapshotDomAction_execute ::
  "jstring \<Rightarrow> engine \<Rightarrow> jstring option \<Rightarrow> jstring option \<Rightarrow> state \<Rightarrow> (err + unit) \<times> state" where
  "BrowserSnapshotDomAction_execute agentName eng searchTerm tabName s =
     catch_report agentName eng (lit ''Error capturing DOM snapshot: '')
       (case require_page tabName s of
          Inl e \<Rightarrow> (Inl e, s)
        | Inr p \<Rightarrow>
            (let term = (case searchTerm of None \<Rightarrow> [] | Some t \<Rightarrow> t)
             in case page_evaluate eng p (SetSnapshotOpts term) of
               Some e \<Rightarrow> (Inl e, s)
             | None \<Rightarrow>
                 (case page_count eng p (lit ''body'') of
                    Inl e \<Rightarrow> (Inl e, s)
                  | Inr exists \<Rightarrow>
                      if exists = 0
                      then report agentName eng (lit ''No elements found matching selector: body'') s
                      else
                        (case page_document eng p of
                           Inl e \<Rightarrow> (Inl e, s)
                         | Inr doc \<Rightarrow>
                             (case snapshot_html (toLowerCase eng) doc term of
                                Inl e \<Rightarrow> (Inl e, s)
                              | Inr html \<Rightarrow>
                                  (case updateLocationStateRendering eng (truncated html) of
                                     Some e \<Rightarrow> (Inl e, s)
                                   | None \<Rightarrow>
                                       report agentName eng
                                         (lit ''DOM snapshot captured and saved to location rendering'')
                                         (s\<lparr>rendering := Some (truncated html)\<rparr>)))))))"

subsection \<open>The action surface\<close>

datatype action =
    launch_browser "jstring option" "jstring option"
  | close_browser
  | create_tab jstring "jstring option"
  | switch_tab jstring
  | close_tab jstring
  | list_tabs
  | browser_click jstring "int option" "jstring option"
  | browser_scroll "direction option" "int option" "bool option" "int option" "jstring option"
  | browser_wait "int option"
  | browser_navigate jstring "jstring option"
  | browser_wait_for_navigation "jstring option" "jstring option"
  | view_screen "jstring option" "jstring option"
  | browser_snapshot_dom "jstring option" "jstring option"

fun execute :: "jstring \<Rightarrow> engine \<Rightarrow> action \<Rightarrow> state \<Rightarrow> (err + unit) \<times> state" where
  "execute a eng (launch_browser url tabName) s = ChromeLaunchAction_execute a eng url tabName s"
| "execute a eng close_browser s = ChromeCloseAction_execute a eng s"
| "execute a eng (create_tab tabName url) s = CreateTabAction_execute a eng tabName url s"
| "execute a eng (switch_tab tabName) s = SwitchTabAction_execute a eng tabName s"
| "execute a eng (close_tab tabName) s = CloseTabAction_execute a eng tabName s"
| "execute a eng list_tabs s = ListTabsAction_execute a eng s"
| "execute a eng (browser_click selector waitAfterMs tabName) s =
     BrowserClickAction_execute a eng selector waitAfterMs tabName s"
| "execute a eng (browser_scroll direction pixels toBottom waitAfterMs tabName) s =
     BrowserScrollAction_execute a eng direction pixels toBottom waitAfterMs tabName s"
| "execute a eng (browser_wait milliseconds) s = BrowserWaitAction_execute a eng milliseconds s"
| "execute a eng (browser_navigate url tabName) s = BrowserNavigateAction_execute a eng url tabName s"
| "execute a eng (browser_wait_for_navigation strategy tabName) s =
     BrowserWaitForNavigationAction_execute a eng strategy tabName s"
| "execute a eng (view_screen input tabName) s = ViewScreenAction_execute a eng input tabName s"
| "execute a eng (browser_snapshot_dom searchTerm tabName) s =
     BrowserSnapshotDomAction_execute a eng searchTerm tabName s"

text \<open>The operations of the registry, by name.\<close>

datatype registry_op =
    Launch "jstring option" "jstring option"
  | Close
  | CreateTab jstring "jstring option"
  | SwitchTab jstring
  | CloseTab jstring
  | GetTab "jstring option"

fun registry_step :: "engine \<Rightarrow> registry_op \<Rightarrow> state \<Rightarrow> (err + unit) \<times> state" where
  "registry_step eng (Launch url tabName) s = launchChromeBrowser eng url tabName s"
| "registry_step eng Close s = closeChromeBrowser eng s"
| "registry_step eng (CreateTab tabName url) s = createNewTab eng tabName url s"
| "registry_step eng (SwitchTab tabName) s = switchToTab eng tabName s"
| "registry_step eng (CloseTab tabName) s = closeTab eng tabName s"
| "registry_step eng (GetTab tabName) s = (Inr (), s)"

text \<open>No tab is registered without a session.\<close>

definition registry_inv :: "state \<Rightarrow> bool" where
  "registry_inv s = (globalBrowser s = None \<longrightarrow> globalPages s = [])"

section \<open>The scroll-to-bottom script\<close>

text \<open>
  The script runs in the page. It scrolls the window (\<^verbatim>\<open>window.scrollBy\<close>) and reads
  \<^verbatim>\<open>scrollTop\<close>, \<^verbatim>\<open>scrollHeight\<close> and \<^verbatim>\<open>clientHeight\<close> of \<^verbatim>\<open>document.documentElement\<close>. What
  the root element reports depends on the rendering mode of the document (CSSOM View):
  in standards mode its \<^verbatim>\<open>scrollTop\<close> is the scroll position of the window, its
  \<^verbatim>\<open>clientHeight\<close> the height of the viewport and its \<^verbatim>\<open>scrollHeight\<close> the height of the
  document (at least that of the viewport); in quirks mode its \<^verbatim>\<open>scrollTop\<close> is 0 and
  the two heights are those of the element's own box. Lengths are whole pixels.
\<close>

record page_state =
  scrollY :: int
  docHeight :: int
  viewHeight :: int
  rootHeight :: int
  quirks :: bool




text \<open>The maximum scroll extent of the window.\<close>

definition maxScroll :: "page_state \<Rightarrow> int" where
  "maxScroll v = max 0 (docHeight v - viewHeight v)"

text \<open>
  How the page answers \<^verbatim>\<open>window.scrollBy(0, dy)\<close> is the browser's matter and a
  parameter of the script: the answer is the page as the next firing of the timer finds
  it. \<^verbatim>\<open>instant_scrollBy\<close> is the answer of a page that scrolls at once (no smooth
  scrolling) and does not change its geometry (nothing loads while the script runs):
  the position moves by \<^verbatim>\<open>dy\<close> and stays between 0 and the maximum scroll extent.
\<close>

definition instant_scrollBy :: "page_state \<Rightarrow> int \<Rightarrow> page_state" where
  "instant_scrollBy v dy = v\<lparr>scrollY := max 0 (min (scrollY v + dy) (maxScroll v))\<rparr>"


section \<open>Concrete collaborators and pages for the examples\<close>

text \<open>
  An engine in which every call succeeds (its \<^verbatim>\<open>toLowerCase\<close> lowers ASCII letters, as
  the real one does on ASCII text), one in which the initial navigation of a new page
  fails, one on a machine without Chrome, and one whose reporting sink is down.
\<close>

definition engine_ok :: engine where
  "engine_ok =
     \<lparr>existsSync = (\<lambda>path. True), USERNAME = Some (lit ''samo''),
      puppeteer_launch = (\<lambda>path. Inr 1), browser_close = (\<lambda>b. None),
      browser_newPage = (\<lambda>b. Inr 7), page_goto = (\<lambda>p url. None),
      page_bringToFront = (\<lambda>p. None), page_close = (\<lambda>p. None),
      page_query = (\<lambda>p sel. Inr True), page_click = (\<lambda>p sel. None),
      page_title = (\<lambda>p. Inr (lit ''Instagram'')), page_waitForFunction = (\<lambda>p. None),
      page_setViewport = (\<lambda>p w h. None), page_screenshot = (\<lambda>p q. Inr (lit ''AAAA'')),
      page_evaluate = (\<lambda>p sc. None),
      page_count = (\<lambda>p sel. Inr 1),
      page_document = (\<lambda>p. Inr \<lparr>doc_main = None, doc_head_meta = [], doc_body = None, doc_bodies = []\<rparr>),
      toLowerCase = map lower_ascii,
      updateLocationStateRendering = (\<lambda>html. None),
      updateLocationStateImage = (\<lambda>img. None),
      location_addSystemMessage = (\<lambda>line. None)\<rparr>"

definition engine_goto_fails :: engine where
  "engine_goto_fails =
     engine_ok\<lparr>page_goto := (\<lambda>p url. Some (Error (lit ''net::ERR_NAME_NOT_RESOLVED'')))\<rparr>"

definition engine_no_chrome :: engine where
  "engine_no_chrome = engine_ok\<lparr>existsSync := (\<lambda>path. False)\<rparr>"

definition engine_sink_down :: engine where
  "engine_sink_down =
     engine_ok\<lparr>location_addSystemMessage := (\<lambda>line. Some (Error (lit ''sink down'')))\<rparr>"

definition one_tab :: state where
  "one_tab = initial\<lparr>globalBrowser := Some 1, globalPages := [(lit ''t1'', 7)]\<rparr>"

text \<open>A page whose only content is \<^verbatim>\<open>n\<close> letters in its main element.\<close>

definition letters :: "nat \<Rightarrow> jstring" where
  "letters n = replicate n (cu CHR ''a'')"

definition letters_doc :: "nat \<Rightarrow> document" where
  "letters_doc n =
     \<lparr>doc_main = Some (Element (letters n) (letters n) []),
      doc_head_meta = [], doc_body = None, doc_bodies = []\<rparr>"

definition engine_letters :: "nat \<Rightarrow> engine" where
  "engine_letters n = engine_ok\<lparr>page_document := (\<lambda>p. Inr (letters_doc n))\<rparr>"

text \<open>A small page: a post with a hashtag and another element.\<close>

definition post_el :: element where
  "post_el = Element (lit ''Lunch in #Busan_Food today'') (lit ''<span>Lunch in #Busan_Food today</span>'') []"

definition other_el :: element where
  "other_el = Element (lit ''Seoul'') (lit ''<span>Seoul</span>'') []"

definition root_el :: element where
  "root_el = Element (lit ''Lunch in #Busan_Food todaySeoul'') (lit ''<main></main>'') [post_el, other_el]"



section \<open>Notions used in the properties\<close>

text \<open>
  \<^verbatim>\<open>attempted eng s r\<close>: what the body of an \<^verbatim>\<open>execute\<close> started in \<^verbatim>\<open>s\<close> can have come
  to: it threw before anything was pushed to the sink, or it returned and the sink has
  taken one line. \<^verbatim>\<open>reported eng s r\<close>: what \<^verbatim>\<open>execute\<close> itself can have come to: it
  returned and the sink has taken one line, or it threw what the sink threw at a line,
  and nothing was pushed.
\<close>

definition attempted :: "engine \<Rightarrow> state \<Rightarrow> (err + unit) \<times> state \<Rightarrow> bool" where
  "attempted eng s r =
     ((isl (fst r) \<and> sink (snd r) = sink s) \<or>
      (fst r = Inr () \<and>
       (\<exists>line. location_addSystemMessage eng line = None \<and> sink (snd r) = sink s @ [line])))"

definition reported :: "engine \<Rightarrow> state \<Rightarrow> (err + unit) \<times> state \<Rightarrow> bool" where
  "reported eng s r =
     ((fst r = Inr () \<and>
       (\<exists>line. location_addSystemMessage eng line = None \<and> sink (snd r) = sink s @ [line])) \<or>
      (\<exists>e line. fst r = Inl e \<and> location_addSystemMessage eng line = Some e \<and> sink (snd r) = sink s))"

text \<open>
  \<^verbatim>\<open>needs c r\<close>: every match of \<^verbatim>\<open>r\<close> consumes the code unit \<^verbatim>\<open>c\<close>. It is used for code
  units that are not ASCII letters (\<^verbatim>\<open>no_letter\<close>).
\<close>

fun needs :: "code_unit \<Rightarrow> re \<Rightarrow> bool" where
  "needs c (Chr a) = (a = c)"
| "needs c (Cat r1 r2) = (needs c r1 \<or> needs c r2)"
| "needs c (Alt r1 r2) = (needs c r1 \<and> needs c r2)"
| "needs c (Grp i r) = needs c r"
| "needs c r = False"

definition no_letter :: "code_unit \<Rightarrow> bool" where
  "no_letter c = (\<not> (cu CHR ''A'' \<le> c \<and> c \<le> cu CHR ''Z'') \<and> \<not> (cu CHR ''a'' \<le> c \<and> c \<le> cu CHR ''z''))"

text \<open>
  \<^verbatim>\<open>squeezed s\<close>: the only white space in \<^verbatim>\<open>s\<close> is the single blank between two other
  code units, or at an end.
\<close>

fun squeezed :: "jstring \<Rightarrow> bool" where
  "squeezed [] = True"
| "squeezed (c # cs) =
     (if is_space c then c = cu CHR '' '' \<and> (cs = [] \<or> \<not> is_space (hd cs)) \<and> squeezed cs
      else squeezed cs)"

text \<open>Text without markup: no tag, no data URI, no attribute can start in it.\<close>

definition plain :: "jstring \<Rightarrow> bool" where
  "plain s = (cu CHR ''<'' \<notin> set s \<and> cu CHR '':'' \<notin> set s \<and> cu CHR ''='' \<notin> set s)"




section \<open>Properties\<close>

subsection \<open>Helper facts about the registry\<close>

lemma catch_log_fst [simp]: "fst (catch_log w r) = fst r"
  by (cases r) (auto simp: catch_log_def split: sum.splits)

lemma catch_log_registry [simp]:
  "globalBrowser (snd (catch_log w r)) = globalBrowser (snd r)"
  "globalPages (snd (catch_log w r)) = globalPages (snd r)"
  by (cases r; auto simp: catch_log_def console_error_def split: sum.splits)+

lemma catch_log_sink [simp]: "sink (snd (catch_log w r)) = sink (snd r)"
  by (cases r; auto simp: catch_log_def console_error_def split: sum.splits)

lemma map_set_fresh: "\<not> map_has k m \<Longrightarrow> map_set k v m = m @ [(k, v)]"
  by (induction m) (auto simp: map_has_def)

subsection \<open>Creating a tab\<close>

text \<open>
  C4. \<^verbatim>\<open>createNewTab\<close> throws the no-session error when no browser is registered and the
  duplicate-name error when the name is registered already, and in both cases the
  browser handle and the registry are what they were. When it returns, the registry is
  the old one with one entry for the name appended: exactly one tab has the name and
  every earlier tab is still there.
\<close>

theorem createNewTab_contract:
  "(globalBrowser s = None \<longrightarrow>
      fst (createNewTab eng n url s) =
        Inl (Error (lit ''Browser not launched. Please launch browser first.'')) \<and>
      globalBrowser (snd (createNewTab eng n url s)) = globalBrowser s \<and>
      globalPages (snd (createNewTab eng n url s)) = globalPages s) \<and>
   (globalBrowser s \<noteq> None \<and> map_has n (globalPages s) \<longrightarrow>
      fst (createNewTab eng n url s) =
        Inl (Error (lit (''Tab with name '' @ dq) @ n @ lit (dq @ '' already exists.''))) \<and>
      globalBrowser (snd (createNewTab eng n url s)) = globalBrowser s \<and>
      globalPages (snd (createNewTab eng n url s)) = globalPages s) \<and>
   (fst (createNewTab eng n url s) = Inr () \<longrightarrow>
      length (filter (\<lambda>kv. fst kv = n) (globalPages (snd (createNewTab eng n url s)))) = 1 \<and>
      (\<exists>p. globalPages (snd (createNewTab eng n url s)) = globalPages s @ [(n, p)]))"
proof (intro conjI impI)
  assume "globalBrowser s = None"
  then show "fst (createNewTab eng n url s) =
      Inl (Error (lit ''Browser not launched. Please launch browser first.''))"
    "globalBrowser (snd (createNewTab eng n url s)) = globalBrowser s"
    "globalPages (snd (createNewTab eng n url s)) = globalPages s"
    by (simp_all add: createNewTab_def)
next
  assume "globalBrowser s \<noteq> None \<and> map_has n (globalPages s)"
  then show "fst (createNewTab eng n url s) =
      Inl (Error (lit (''Tab with name '' @ dq) @ n @ lit (dq @ '' already exists.'')))"
    "globalBrowser (snd (createNewTab eng n url s)) = globalBrowser s"
    "globalPages (snd (createNewTab eng n url s)) = globalPages s"
    by (auto simp: createNewTab_def)
next
  assume ok: "fst (createNewTab eng n url s) = Inr ()"
  then obtain b p where b: "globalBrowser s = Some b" and fresh: "\<not> map_has n (globalPages s)"
    and p: "browser_newPage eng b = Inr p"
    by (auto simp: createNewTab_def split: option.splits if_splits sum.splits)
  from ok b fresh p have pages: "globalPages (snd (createNewTab eng n url s)) = globalPages s @ [(n, p)]"
    by (auto simp: createNewTab_def Let_def console_log_def map_set_fresh split: option.splits if_splits)
  from fresh have "filter (\<lambda>kv. fst kv = n) (globalPages s) = []"
    by (auto simp: map_has_def filter_empty_conv)
  with pages show "length (filter (\<lambda>kv. fst kv = n) (globalPages (snd (createNewTab eng n url s)))) = 1"
    by simp
  from pages show "\<exists>p. globalPages (snd (createNewTab eng n url s)) = globalPages s @ [(n, p)]"
    by blast
qed

theorem createNewTab_contract_witness:
  "fst (createNewTab engine_ok (lit ''t2'') None initial) =
     Inl (Error (lit ''Browser not launched. Please launch browser first.'')) \<and>
   globalPages (snd (createNewTab engine_ok (lit ''t2'') None initial)) = [] \<and>
   fst (createNewTab engine_ok (lit ''t1'') None one_tab) =
     Inl (Error (lit (''Tab with name '' @ dq) @ lit ''t1'' @ lit (dq @ '' already exists.''))) \<and>
   globalPages (snd (createNewTab engine_ok (lit ''t1'') None one_tab)) = [(lit ''t1'', 7)] \<and>
   fst (createNewTab engine_ok (lit ''t2'') None one_tab) = Inr () \<and>
   length (filter (\<lambda>kv. fst kv = lit ''t2'')
     (globalPages (snd (createNewTab engine_ok (lit ''t2'') None one_tab)))) = 1"
proof -
  have a: "globalBrowser initial = None"
    by (simp add: initial_def)
  have b: "globalBrowser one_tab \<noteq> None \<and> map_has (lit ''t1'') (globalPages one_tab)"
    by (simp add: one_tab_def initial_def map_has_def)
  have c: "fst (createNewTab engine_ok (lit ''t2'') None one_tab) = Inr ()"
    by (simp add: createNewTab_def one_tab_def initial_def map_has_def engine_ok_def truthy_def
        catch_log_def console_log_def lit_def cu_def)
  show ?thesis
    using createNewTab_contract [of initial engine_ok "lit ''t2''" None] a
      createNewTab_contract [of one_tab engine_ok "lit ''t1''" None] b
      createNewTab_contract [of one_tab engine_ok "lit ''t2''" None] c
    by (simp add: initial_def one_tab_def)
qed

subsection \<open>The registry invariant\<close>

lemma launch_body_inv: "registry_inv s \<Longrightarrow> registry_inv (snd (launch_body eng url tab s))"
  by (auto simp: launch_body_def registry_inv_def Let_def console_log_def
      split: option.splits sum.splits)

lemma launch_inv: "registry_inv s \<Longrightarrow> registry_inv (snd (launchChromeBrowser eng url tab s))"
  using launch_body_inv by (simp add: launchChromeBrowser_def registry_inv_def)

lemma close_inv: "registry_inv s \<Longrightarrow> registry_inv (snd (closeChromeBrowser eng s))"
  by (auto simp: closeChromeBrowser_def registry_inv_def console_log_def split: option.splits)

lemma createNewTab_inv: "registry_inv s \<Longrightarrow> registry_inv (snd (createNewTab eng n url s))"
  by (auto simp: createNewTab_def registry_inv_def console_log_def Let_def split: option.splits sum.splits)

lemma switchToTab_inv: "registry_inv s \<Longrightarrow> registry_inv (snd (switchToTab eng n s))"
  by (auto simp: switchToTab_def registry_inv_def split: option.splits)

lemma closeTab_inv: "registry_inv s \<Longrightarrow> registry_inv (snd (closeTab eng n s))"
  by (auto simp: closeTab_def registry_inv_def console_log_def map_get_def map_delete_def split: option.splits)

text \<open>
  C9. No tab is registered without a session: the invariant holds of the initial module
  state and every registry operation (launch, close, createTab, switchTab, closeTab,
  getTab) keeps it, whatever the engine does and whether the operation returns or
  throws.
\<close>

theorem registry_invariant:
  "registry_inv initial \<and> (registry_inv s \<longrightarrow> registry_inv (snd (registry_step eng op s)))"
proof
  show "registry_inv initial"
    by (simp add: registry_inv_def initial_def)
  show "registry_inv s \<longrightarrow> registry_inv (snd (registry_step eng op s))"
    by (cases op) (simp_all add: launch_inv close_inv createNewTab_inv switchToTab_inv closeTab_inv)
qed

theorem registry_invariant_witness:
  "registry_inv initial \<and>
   registry_inv (snd (registry_step engine_goto_fails (Launch None None) initial)) \<and>
   registry_inv (snd (registry_step engine_ok Close one_tab))"
proof -
  have a: "registry_inv initial"
    by (simp add: registry_inv_def initial_def)
  have b: "registry_inv one_tab"
    by (simp add: registry_inv_def one_tab_def)
  show ?thesis
    using registry_invariant [of initial engine_goto_fails "Launch None None"] a
      registry_invariant [of one_tab engine_ok Close] b
    by simp
qed

subsection \<open>Launching\<close>

lemma find_engine_goto_fails:
  "findChromeExecutable engine_goto_fails =
     Some (path_of [lit ''C:'', lit ''Program Files'', lit ''Google'', lit ''Chrome'', lit ''Application'',
                    lit ''chrome.exe''])"
  by (simp add: findChromeExecutable_def possiblePaths_def engine_ok_def engine_goto_fails_def Let_def)

text \<open>
  C3, as stated, fails: when the initial navigation fails, \<^verbatim>\<open>launchChromeBrowser\<close> throws
  and leaves the browser it started in \<^verbatim>\<open>globalBrowser\<close> and the new tab in the registry.
\<close>

theorem launch_failure_keeps_session:
  "isl (fst (launchChromeBrowser engine_goto_fails None None initial)) \<and>
   globalBrowser (snd (launchChromeBrowser engine_goto_fails None None initial)) = Some 1 \<and>
   globalPages (snd (launchChromeBrowser engine_goto_fails None None initial)) = [(lit ''default'', 7)]"
  by (simp add: launchChromeBrowser_def launch_body_def find_engine_goto_fails initial_def)
     (simp add: engine_goto_fails_def engine_ok_def lit_def)

text \<open>
  C3, amended. If the launch fails because no browser executable is located or because
  the engine does not start the browser, then no session is left registered: the
  browser handle is null and the registry is empty. (The state before satisfies the
  registry invariant, and a session that existed was closed by the engine.)
\<close>

theorem launch_failure_before_start:
  assumes "registry_inv s"
    and "case globalBrowser s of None \<Rightarrow> True | Some b \<Rightarrow> browser_close eng b = None"
    and "findChromeExecutable eng = None \<or>
         (\<exists>path. findChromeExecutable eng = Some path \<and> isl (puppeteer_launch eng path))"
  shows "isl (fst (launchChromeBrowser eng url tabName s)) \<and>
         globalBrowser (snd (launchChromeBrowser eng url tabName s)) = None \<and>
         globalPages (snd (launchChromeBrowser eng url tabName s)) = []"
  using assms
  by (auto simp: launchChromeBrowser_def launch_body_def registry_inv_def split: option.splits sum.splits)

theorem launch_failure_before_start_witness:
  "registry_inv one_tab \<and> findChromeExecutable engine_no_chrome = None \<and>
   isl (fst (launchChromeBrowser engine_no_chrome None None one_tab)) \<and>
   globalBrowser (snd (launchChromeBrowser engine_no_chrome None None one_tab)) = None \<and>
   globalPages (snd (launchChromeBrowser engine_no_chrome None None one_tab)) = []"
proof -
  have a: "registry_inv one_tab"
    by (simp add: registry_inv_def one_tab_def)
  have b: "case globalBrowser one_tab of None \<Rightarrow> True | Some b \<Rightarrow> browser_close engine_no_chrome b = None"
    by (simp add: one_tab_def engine_no_chrome_def engine_ok_def)
  have c: "findChromeExecutable engine_no_chrome = None"
    by (simp add: findChromeExecutable_def possiblePaths_def engine_no_chrome_def Let_def)
  from c have d: "findChromeExecutable engine_no_chrome = None \<or>
      (\<exists>path. findChromeExecutable engine_no_chrome = Some path \<and> isl (puppeteer_launch engine_no_chrome path))"
    by simp
  show ?thesis
    using launch_failure_before_start [OF a b d, of None None] a c by simp
qed

subsection \<open>Closing\<close>

lemma close_sink [simp]: "sink (snd (closeChromeBrowser eng s)) = sink s"
  by (auto simp: closeChromeBrowser_def console_log_def split: option.splits)

text \<open>
  C7, as stated, fails: with no session, the no-instance note goes to the console and
  the line that reaches the reporting sink is the line of a successful close.
\<close>

theorem close_without_session_reports_success:
  "fst (ChromeCloseAction_execute (lit ''samo'') engine_ok initial) = Inr () \<and>
   console (snd (ChromeCloseAction_execute (lit ''samo'') engine_ok initial)) =
     [info_mark @ lit ''No browser instance was running''] \<and>
   sink (snd (ChromeCloseAction_execute (lit ''samo'') engine_ok initial)) =
     [lit ''[samo] Successfully closed Chrome browser''] \<and>
   sink (snd (ChromeCloseAction_execute (lit ''samo'') engine_ok one_tab)) =
     sink (snd (ChromeCloseAction_execute (lit ''samo'') engine_ok initial))"
  by (simp add: ChromeCloseAction_execute_def closeChromeBrowser_def catch_report_def catch_log_def
      report_def addSystemMessage_def tagged_def console_log_def initial_def one_tab_def engine_ok_def
      lit_def)

text \<open>
  C7, amended. With no session, close-browser leaves the registry as it is and writes
  the no-instance note to the console; with a session that the engine closes, it
  releases the session and clears all tab bindings. In both cases it then reports the
  success line, and when the sink takes that line it raises no error and the line is
  what it has pushed.
\<close>

theorem close_browser_outcome:
  "(globalBrowser s = None \<longrightarrow>
      globalBrowser (snd (ChromeCloseAction_execute a eng s)) = None \<and>
      globalPages (snd (ChromeCloseAction_execute a eng s)) = globalPages s \<and>
      console (snd (ChromeCloseAction_execute a eng s)) =
        console s @ [info_mark @ lit ''No browser instance was running''] \<and>
      (location_addSystemMessage eng (tagged a (lit ''Successfully closed Chrome browser'')) = None \<longrightarrow>
         fst (ChromeCloseAction_execute a eng s) = Inr () \<and>
         sink (snd (ChromeCloseAction_execute a eng s)) =
           sink s @ [tagged a (lit ''Successfully closed Chrome browser'')])) \<and>
   ((\<exists>b. globalBrowser s = Some b \<and> browser_close eng b = None) \<longrightarrow>
      globalBrowser (snd (ChromeCloseAction_execute a eng s)) = None \<and>
      globalPages (snd (ChromeCloseAction_execute a eng s)) = [] \<and>
      (location_addSystemMessage eng (tagged a (lit ''Successfully closed Chrome browser'')) = None \<longrightarrow>
         fst (ChromeCloseAction_execute a eng s) = Inr () \<and>
         sink (snd (ChromeCloseAction_execute a eng s)) =
           sink s @ [tagged a (lit ''Successfully closed Chrome browser'')]))"
  by (auto simp: ChromeCloseAction_execute_def closeChromeBrowser_def catch_report_def catch_log_def
      report_def addSystemMessage_def console_log_def split: option.splits)

theorem close_browser_outcome_witness:
  "globalBrowser initial = None \<and>
   location_addSystemMessage engine_ok (tagged (lit ''samo'') (lit ''Successfully closed Chrome browser'')) = None \<and>
   fst (ChromeCloseAction_execute (lit ''samo'') engine_ok initial) = Inr () \<and>
   globalPages (snd (ChromeCloseAction_execute (lit ''samo'') engine_ok initial)) = [] \<and>
   globalBrowser one_tab = Some 1 \<and> browser_close engine_ok 1 = None \<and>
   fst (ChromeCloseAction_execute (lit ''samo'') engine_ok one_tab) = Inr () \<and>
   globalBrowser (snd (ChromeCloseAction_execute (lit ''samo'') engine_ok one_tab)) = None \<and>
   globalPages (snd (ChromeCloseAction_execute (lit ''samo'') engine_ok one_tab)) = []"
proof -
  have a: "globalBrowser initial = None"
    by (simp add: initial_def)
  have b: "\<exists>b. globalBrowser one_tab = Some b \<and> browser_close engine_ok b = None"
    by (simp add: one_tab_def engine_ok_def)
  have c: "location_addSystemMessage engine_ok
      (tagged (lit ''samo'') (lit ''Successfully closed Chrome browser'')) = None"
    by (simp add: engine_ok_def)
  show ?thesis
    using close_browser_outcome [of initial "lit ''samo''" engine_ok] a
      close_browser_outcome [of one_tab "lit ''samo''" engine_ok] b c
    by (simp add: initial_def one_tab_def engine_ok_def)
qed

subsection \<open>Fixed wait\<close>

lemma addSystemMessage_slept [simp]: "slept (snd (addSystemMessage eng line s)) = slept s"
  by (simp add: addSystemMessage_def split: option.splits)

lemma catch_report_slept [simp]: "slept (snd (catch_report a eng w r)) = slept (snd r)"
  by (cases r) (auto simp: catch_report_def split: sum.splits)

text \<open>
  C10. A duration of 0 is treated as an omitted one: the action sleeps 3000 ms and
  reports the same line; no request makes it sleep 0 ms.
\<close>

theorem wait_zero_is_default:
  "waitTime (Some 0) = 3000 \<and> waitTime None = 3000 \<and>
   BrowserWaitAction_execute a eng (Some 0) s = BrowserWaitAction_execute a eng None s \<and>
   slept (snd (BrowserWaitAction_execute a eng (Some 0) s)) = slept s @ [3000] \<and>
   (\<forall>ms. waitTime ms \<noteq> 0 \<and>
         slept (snd (BrowserWaitAction_execute a eng ms s)) = slept s @ [waitTime ms])"
  by (auto simp: waitTime_def BrowserWaitAction_execute_def report_def sleep_def split: option.splits)

subsection \<open>What an action reports and what it can raise\<close>

lemma report_attempted [simp]: "sink s1 = sink s \<Longrightarrow> attempted eng s (report a eng text s1)"
  by (auto simp: attempted_def report_def addSystemMessage_def split: option.splits)

lemma throw_attempted [simp]: "sink s1 = sink s \<Longrightarrow> attempted eng s (Inl e, s1)"
  by (simp add: attempted_def)

lemma catch_report_reported: "attempted eng s r \<Longrightarrow> reported eng s (catch_report a eng w r)"
  by (cases r) (auto simp: attempted_def reported_def catch_report_def addSystemMessage_def
      split: sum.splits option.splits)

lemma registry_attempted:
  "sink (snd r) = sink s \<Longrightarrow>
   attempted eng s (case r of (Inl e, s1) \<Rightarrow> (Inl e, s1) | (Inr u, s1) \<Rightarrow> report a eng text s1)"
  by (cases r) (auto split: sum.splits)

lemma settle_sink [simp]: "sink (settle w s) = sink s"
  by (simp add: settle_def sleep_def split: option.splits)

lemma sleep_sink [simp]: "sink (sleep ms s) = sink s"
  by (simp add: sleep_def)

lemma launch_sink [simp]: "sink (snd (launchChromeBrowser eng url tab s)) = sink s"
  by (auto simp: launchChromeBrowser_def launch_body_def Let_def console_log_def
      split: option.splits sum.splits)

lemma createNewTab_sink [simp]: "sink (snd (createNewTab eng n url s)) = sink s"
  by (auto simp: createNewTab_def Let_def console_log_def split: option.splits sum.splits)

lemma switchToTab_sink [simp]: "sink (snd (switchToTab eng n s)) = sink s"
  by (auto simp: switchToTab_def split: option.splits)

lemma closeTab_sink [simp]: "sink (snd (closeTab eng n s)) = sink s"
  by (auto simp: closeTab_def console_log_def split: option.splits)

lemma launch_action_reported: "reported eng s (ChromeLaunchAction_execute a eng url tab s)"
  unfolding ChromeLaunchAction_execute_def
  by (intro catch_report_reported registry_attempted) simp

lemma close_action_reported: "reported eng s (ChromeCloseAction_execute a eng s)"
  unfolding ChromeCloseAction_execute_def
  by (intro catch_report_reported registry_attempted) simp

lemma create_tab_action_reported: "reported eng s (CreateTabAction_execute a eng n url s)"
  unfolding CreateTabAction_execute_def
  by (intro catch_report_reported registry_attempted) simp

lemma switch_tab_action_reported: "reported eng s (SwitchTabAction_execute a eng n s)"
  unfolding SwitchTabAction_execute_def
  by (intro catch_report_reported registry_attempted) simp

lemma close_tab_action_reported: "reported eng s (CloseTabAction_execute a eng n s)"
  unfolding CloseTabAction_execute_def
  by (intro catch_report_reported registry_attempted) simp

lemma list_tabs_action_reported: "reported eng s (ListTabsAction_execute a eng s)"
  unfolding ListTabsAction_execute_def
  by (rule catch_report_reported) (simp add: Let_def)

lemma click_action_reported: "reported eng s (BrowserClickAction_execute a eng sel w tab s)"
  unfolding BrowserClickAction_execute_def
  by (rule catch_report_reported) (simp split: sum.splits option.splits)

lemma scroll_action_reported: "reported eng s (BrowserScrollAction_execute a eng d px tb w tab s)"
  unfolding BrowserScrollAction_execute_def
  by (rule catch_report_reported) (simp add: Let_def split: sum.splits option.splits)

lemma wait_action_reported: "reported eng s (BrowserWaitAction_execute a eng ms s)"
  unfolding BrowserWaitAction_execute_def
  by (rule catch_report_reported) simp

lemma navigate_action_reported: "reported eng s (BrowserNavigateAction_execute a eng url tab s)"
  unfolding BrowserNavigateAction_execute_def
  by (rule catch_report_reported) (simp split: sum.splits option.splits)

lemma wait_for_navigation_action_reported:
  "reported eng s (BrowserWaitForNavigationAction_execute a eng st tab s)"
  unfolding BrowserWaitForNavigationAction_execute_def
  by (rule catch_report_reported) (simp split: sum.splits option.splits)

lemma view_screen_action_reported: "reported eng s (ViewScreenAction_execute a eng inp tab s)"
  unfolding ViewScreenAction_execute_def
  by (rule catch_report_reported) (simp add: Let_def split: sum.splits option.splits)

lemma snapshot_action_reported: "reported eng s (BrowserSnapshotDomAction_execute a eng term tab s)"
  unfolding BrowserSnapshotDomAction_execute_def
  by (rule catch_report_reported) (simp add: Let_def split: sum.splits option.splits)

lemma execute_reported: "reported eng s (execute a eng act s)"
proof (cases act)
  case (launch_browser url tabName)
  then show ?thesis by (simp add: launch_action_reported)
next
  case close_browser
  then show ?thesis by (simp add: close_action_reported)
next
  case (create_tab tabName url)
  then show ?thesis by (simp add: create_tab_action_reported)
next
  case (switch_tab tabName)
  then show ?thesis by (simp add: switch_tab_action_reported)
next
  case (close_tab tabName)
  then show ?thesis by (simp add: close_tab_action_reported)
next
  case list_tabs
  then show ?thesis by (simp add: list_tabs_action_reported)
next
  case (browser_click selector waitAfterMs tabName)
  then show ?thesis by (simp add: click_action_reported)
next
  case (browser_scroll direction pixels toBottom waitAfterMs tabName)
  then show ?thesis by (simp add: scroll_action_reported)
next
  case (browser_wait milliseconds)
  then show ?thesis by (simp add: wait_action_reported)
next
  case (browser_navigate url tabName)
  then show ?thesis by (simp add: navigate_action_reported)
next
  case (browser_wait_for_navigation strategy tabName)
  then show ?thesis by (simp add: wait_for_navigation_action_reported)
next
  case (view_screen input tabName)
  then show ?thesis by (simp add: view_screen_action_reported)
next
  case (browser_snapshot_dom searchTerm tabName)
  then show ?thesis by (simp add: snapshot_action_reported)
qed

text \<open>
  C1, as stated, fails: the report in the \<^verbatim>\<open>catch\<close> block is itself a call that can
  throw. With a sink that is down, the wait action sleeps, fails to report, fails to
  report the failure, and \<^verbatim>\<open>execute\<close> throws the sink's error with nothing pushed.
\<close>

theorem execute_raises_when_sink_is_down:
  "execute (lit ''samo'') engine_sink_down (browser_wait None) initial =
     (Inl (Error (lit ''sink down'')), initial\<lparr>slept := [3000]\<rparr>)"
  by (simp add: BrowserWaitAction_execute_def catch_report_def report_def addSystemMessage_def
      engine_sink_down_def engine_ok_def sleep_def waitTime_def initial_def)

text \<open>
  C1, amended. For every action of the dispatcher, every input, every state and every
  behaviour of the engine: when the reporting sink takes the lines it is given,
  \<^verbatim>\<open>execute\<close> returns without raising and has pushed exactly one line to the sink, any
  error of the registry or of the engine having been caught at the action boundary and
  turned into that line. Whatever the sink does, \<^verbatim>\<open>execute\<close> either returns with exactly
  one line pushed, or raises the very error that the sink threw at a line, with nothing
  pushed; it raises nothing else.
\<close>

theorem execute_reports_once:
  "((\<forall>line. location_addSystemMessage eng line = None) \<longrightarrow>
      fst (execute a eng act s) = Inr () \<and>
      (\<exists>line. sink (snd (execute a eng act s)) = sink s @ [line])) \<and>
   ((fst (execute a eng act s) = Inr () \<and>
     (\<exists>line. location_addSystemMessage eng line = None \<and>
        sink (snd (execute a eng act s)) = sink s @ [line])) \<or>
    (\<exists>e line. fst (execute a eng act s) = Inl e \<and> location_addSystemMessage eng line = Some e \<and>
       sink (snd (execute a eng act s)) = sink s))"
  using execute_reported [of eng s a act]
  by (auto simp: reported_def)

theorem execute_reports_once_witness:
  "(\<forall>line. location_addSystemMessage engine_goto_fails line = None) \<and>
   fst (execute (lit ''samo'') engine_goto_fails (browser_navigate (lit ''https://nowhere.test'') None) one_tab) =
     Inr () \<and>
   (\<exists>line. sink (snd (execute (lit ''samo'') engine_goto_fails
      (browser_navigate (lit ''https://nowhere.test'') None) one_tab)) = sink one_tab @ [line])"
proof -
  have a: "\<forall>line. location_addSystemMessage engine_goto_fails line = None"
    by (simp add: engine_goto_fails_def engine_ok_def)
  with execute_reports_once [of engine_goto_fails "lit ''samo''"
      "browser_navigate (lit ''https://nowhere.test'') None" one_tab]
  show ?thesis by blast
qed

subsection \<open>The search-term filter\<close>

lemma starts_with_iff: "starts_with s sub \<longleftrightarrow> (\<exists>post. s = sub @ post)"
  by (induction s sub rule: starts_with.induct) auto

lemma str_includes_iff: "str_includes s sub \<longleftrightarrow> (\<exists>pre post. s = pre @ sub @ post)"
proof (induction s)
  case Nil
  then show ?case by simp
next
  case (Cons c cs)
  show ?case
  proof
    assume "str_includes (c # cs) sub"
    then consider "starts_with (c # cs) sub" | "str_includes cs sub"
      by auto
    then show "\<exists>pre post. c # cs = pre @ sub @ post"
    proof cases
      case 1
      then obtain post where "c # cs = sub @ post"
        by (auto simp: starts_with_iff)
      then have "c # cs = [] @ sub @ post" by simp
      then show ?thesis by blast
    next
      case 2
      with Cons obtain pre post where "cs = pre @ sub @ post" by auto
      then have "c # cs = (c # pre) @ sub @ post" by simp
      then show ?thesis by blast
    qed
  next
    assume "\<exists>pre post. c # cs = pre @ sub @ post"
    then obtain pre post where eq: "c # cs = pre @ sub @ post" by auto
    show "str_includes (c # cs) sub"
    proof (cases pre)
      case Nil
      with eq have "starts_with (c # cs) sub"
        by (auto simp: starts_with_iff)
      then show ?thesis by simp
    next
      case (Cons p ps)
      with eq have "cs = ps @ sub @ post" by simp
      with Cons.IH have "str_includes cs sub" by blast
      then show ?thesis by simp
    qed
  qed
qed

text \<open>
  C5. With a non-empty search term, the snapshot keeps exactly those descendants of the
  scope root whose lower-cased text content contains the lower-cased term, or contains
  the hash mark followed by the lower-cased term; \<^verbatim>\<open>lower\<close> is \<^verbatim>\<open>toLowerCase\<close> of the
  page's runtime, whatever its case mapping. Without a search term nothing is
  filtered: \<^verbatim>\<open>containsSearchTerm\<close> holds of every element and the snapshot is made of the
  whole base elements.
\<close>

theorem containsSearchTerm_filter:
  "(term \<noteq> [] \<longrightarrow>
      (el \<in> set (snapshot_matches lower root term) \<longleftrightarrow>
         el \<in> set (querySelectorAll root) \<and>
         ((\<exists>pre post. lower (textContent el) = pre @ lower term @ post) \<or>
          (\<exists>pre post. lower (textContent el) = pre @ lit ''#'' @ lower term @ post)))) \<and>
   containsSearchTerm lower el [] \<and>
   snapshot_matches lower root [] = querySelectorAll root \<and>
   snapshot_html lower doc [] =
     Inr (with_head doc (join (newline @ newline) (map (\<lambda>el. cleanHtml (outerHTML el)) (baseElements doc))))"
  by (simp add: snapshot_matches_def containsSearchTerm_def Let_def str_includes_iff snapshot_html_def)

theorem containsSearchTerm_filter_witness:
  "lit ''busan_food'' \<noteq> [] \<and>
   snapshot_matches (map lower_ascii) root_el (lit ''busan_food'') = [post_el] \<and>
   post_el \<in> set (querySelectorAll root_el) \<and>
   (\<exists>pre post. map lower_ascii (textContent post_el) = pre @ map lower_ascii (lit ''busan_food'') @ post)"
proof -
  let ?lower = "map lower_ascii"
  let ?tm = "lit ''busan_food''"
  have a: "?tm \<noteq> []" by (simp add: lit_def)
  have b: "snapshot_matches ?lower root_el ?tm = [post_el]"
    by code_simp
  then have c: "post_el \<in> set (snapshot_matches ?lower root_el ?tm)" by simp
  from containsSearchTerm_filter [of ?tm post_el ?lower root_el] a
  have "post_el \<in> set (snapshot_matches ?lower root_el ?tm) \<longleftrightarrow>
      post_el \<in> set (querySelectorAll root_el) \<and>
      ((\<exists>pre post. ?lower (textContent post_el) = pre @ ?lower ?tm @ post) \<or>
       (\<exists>pre post. ?lower (textContent post_el) = pre @ lit ''#'' @ ?lower ?tm @ post))"
    by blast
  with c have d: "post_el \<in> set (querySelectorAll root_el) \<and>
      ((\<exists>pre post. ?lower (textContent post_el) = pre @ ?lower ?tm @ post) \<or>
       (\<exists>pre post. ?lower (textContent post_el) = pre @ lit ''#'' @ ?lower ?tm @ post))"
    by blast
  have "\<exists>pre post. ?lower (textContent post_el) = pre @ ?lower ?tm @ post"
  proof -
    from d consider
      "\<exists>pre post. ?lower (textContent post_el) = pre @ ?lower ?tm @ post"
      | "\<exists>pre post. ?lower (textContent post_el) = pre @ lit ''#'' @ ?lower ?tm @ post"
      by blast
    then show ?thesis
    proof cases
      case 1
      then show ?thesis .
    next
      case 2
      then obtain pre post where
        "?lower (textContent post_el) = (pre @ lit ''#'') @ ?lower ?tm @ post"
        by auto
      then show ?thesis by blast
    qed
  qed
  with a b d show ?thesis by blast
qed

subsection \<open>Scrolling to the bottom\<close>



lemma instant_scrollBy_geometry [simp]:
  "docHeight (instant_scrollBy v dy) = docHeight v"
  "viewHeight (instant_scrollBy v dy) = viewHeight v"
  "rootHeight (instant_scrollBy v dy) = rootHeight v"
  "quirks (instant_scrollBy v dy) = quirks v"
  "maxScroll (instant_scrollBy v dy) = maxScroll v"
  by (simp_all add: instant_scrollBy_def maxScroll_def)






subsection \<open>Sanitization\<close>

lemma same_char_no_letter: "no_letter c \<Longrightarrow> same_char ic c x \<Longrightarrow> x = c"
  by (auto simp: same_char_def lower_ascii_def no_letter_def cu_def split: if_splits)

lemma no_letter_marks:
  "no_letter (cu CHR ''<'')" "no_letter (cu CHR '':'')" "no_letter (cu CHR ''='')"
  by (simp_all add: no_letter_def cu_def)

lemma match_lit_suffix: "match_lit ic w s = Some s' \<Longrightarrow> set s' \<subseteq> set s"
  by (induction ic w s rule: match_lit.induct) (auto split: if_splits)

lemma rmatch_suffix: "st' \<in> set (rmatch ic r st) \<Longrightarrow> set (fst st') \<subseteq> set (fst st)"
proof (induction ic r st arbitrary: st' rule: rmatch.induct)
  case (1 ic a s cp)
  then show ?case by (auto simp: rmatch.simps(1) split: list.splits if_splits)
next
  case (2 ic P s cp)
  then show ?case by (auto simp: rmatch.simps(2) split: list.splits if_splits)
next
  case (3 ic st)
  then show ?case by (simp add: rmatch.simps(3))
next
  case (4 ic r1 r2 st)
  from 4(3) obtain x where x: "x \<in> set (rmatch ic r1 st)" and st': "st' \<in> set (rmatch ic r2 x)"
    by (auto simp: rmatch.simps(4))
  from 4(1) [OF x] 4(2) [OF x st'] show ?case by blast
next
  case (5 ic r1 r2 st)
  from 5(3) have "st' \<in> set (rmatch ic r1 st) \<or> st' \<in> set (rmatch ic r2 st)"
    by (simp add: rmatch.simps(5))
  with 5(1) 5(2) show ?case by blast
next
  case (6 ic r s cp)
  from 6(3) have "st' \<in> set (concat (map (rmatch ic (Star r))
               (filter (\<lambda>st'. length (fst st') < length s) (rmatch ic r (s, cp)))) @ [(s, cp)])"
    by (simp only: rmatch.simps(6))
  then consider "st' = (s, cp)"
    | x where "x \<in> set (rmatch ic r (s, cp))" "length (fst x) < length s" "st' \<in> set (rmatch ic (Star r) x)"
    by auto
  then show ?case
  proof cases
    case 1
    then show ?thesis by simp
  next
    case 2
    from 2(1,2) have "x \<in> set (filter (\<lambda>st'. length (fst st') < length s) (rmatch ic r (s, cp)))"
      by simp
    from 6(2) [OF this 2(3)] 6(1) [OF 2(1)] show ?thesis by auto
  qed
next
  case (7 ic r s cp)
  from 7(3) have "st' \<in> set ((s, cp) # concat (map (rmatch ic (Lazy r))
               (filter (\<lambda>st'. length (fst st') < length s) (rmatch ic r (s, cp)))))"
    by (simp only: rmatch.simps(7))
  then consider "st' = (s, cp)"
    | x where "x \<in> set (rmatch ic r (s, cp))" "length (fst x) < length s" "st' \<in> set (rmatch ic (Lazy r) x)"
    by auto
  then show ?case
  proof cases
    case 1
    then show ?thesis by simp
  next
    case 2
    from 2(1,2) have "x \<in> set (filter (\<lambda>st'. length (fst st') < length s) (rmatch ic r (s, cp)))"
      by simp
    from 7(2) [OF this 2(3)] 7(1) [OF 2(1)] show ?thesis by auto
  qed
next
  case (8 ic i r s cp)
  from 8(2) obtain x where "x \<in> set (rmatch ic r (s, cp))" "fst st' = fst x"
    by (auto simp: rmatch.simps(8))
  with 8(1) show ?case by auto
next
  case (9 ic i s cp)
  show ?case
  proof (cases "map_of cp i")
    case None
    with 9 show ?thesis by (simp add: rmatch.simps(9))
  next
    case w: (Some w)
    show ?thesis
    proof (cases "match_lit ic w s")
      case None
      with 9 w show ?thesis by (simp add: rmatch.simps(9))
    next
      case (Some s')
      with 9 w have "st' = (s', cp)" by (simp add: rmatch.simps(9))
      with match_lit_suffix [OF Some] show ?thesis by simp
    qed
  qed
qed

lemma rmatch_needs:
  "no_letter c \<Longrightarrow> needs c r \<Longrightarrow> c \<notin> set s \<Longrightarrow> rmatch ic r (s, cp) = []"
proof (induction r arbitrary: s cp)
  case (Chr a)
  then show ?case
    by (auto simp: rmatch.simps(1) split: list.splits dest: same_char_no_letter)
next
  case (Cat r1 r2)
  show ?case
  proof (cases "needs c r1")
    case True
    with Cat show ?thesis by (simp add: rmatch.simps(4))
  next
    case False
    with Cat.prems have n2: "needs c r2" by simp
    have "rmatch ic r2 st' = []" if "st' \<in> set (rmatch ic r1 (s, cp))" for st'
    proof -
      from rmatch_suffix [OF that] Cat.prems(3) have "c \<notin> set (fst st')" by auto
      with Cat.IH(2) [OF Cat.prems(1) n2, of "fst st'" "snd st'"] show ?thesis by simp
    qed
    then show ?thesis by (simp add: rmatch.simps(4))
  qed
next
  case (Alt r1 r2)
  then show ?case by (simp add: rmatch.simps(5))
next
  case (Grp i r)
  then show ?case by (simp add: rmatch.simps(8))
qed simp_all

lemma replace_all_needs:
  "no_letter c \<Longrightarrow> needs c r \<Longrightarrow> c \<notin> set s \<Longrightarrow> replace_all ic r f s = s"
  by (induction s) (simp_all add: rmatch_needs)

lemma needs_Str: "needs c (Str w) \<longleftrightarrow> c \<in> cu ` set w"
  by (induction w) (auto simp: Str_def)

lemma needs_Seq: "needs c (Seq rs) \<longleftrightarrow> (\<exists>r \<in> set rs. needs c r)"
  by (induction rs) (auto simp: Seq_def)

lemma needs_AltL: "rs \<noteq> [] \<Longrightarrow> needs c (AltL rs) \<longleftrightarrow> (\<forall>r \<in> set rs. needs c r)"
proof (induction rs rule: list_nonempty_induct)
  case (single r)
  then show ?case by (simp add: AltL_def)
next
  case (cons r rs)
  then show ?case by (simp add: AltL_def)
qed

lemma needs_Plus: "needs c (Plus r) \<longleftrightarrow> needs c r"
  by (simp add: Plus_def)

lemma replace_all_lt:
  "needs (cu CHR ''<'') r \<Longrightarrow> cu CHR ''<'' \<notin> set s \<Longrightarrow> replace_all ic r f s = s"
  by (rule replace_all_needs [OF no_letter_marks(1)])

lemma replace_all_colon:
  "needs (cu CHR '':'') r \<Longrightarrow> cu CHR '':'' \<notin> set s \<Longrightarrow> replace_all ic r f s = s"
  by (rule replace_all_needs [OF no_letter_marks(2)])

lemma replace_all_eq:
  "needs (cu CHR ''='') r \<Longrightarrow> cu CHR ''='' \<notin> set s \<Longrightarrow> replace_all ic r f s = s"
  by (rule replace_all_needs [OF no_letter_marks(3)])

lemma markup_plain: "plain s \<Longrightarrow> fold apply_replacement markup_replacements s = s"
  by (simp add: markup_replacements_def apply_replacement_def removal_def plain_def
      replace_all_lt replace_all_colon replace_all_eq
      block_def data_uri_def attr_def needs_Seq needs_Str needs_AltL needs_Plus dq_def)

lemma rmatch_star_cls:
  "rmatch ic (Star (Cls P)) (s, cp) \<noteq> [] \<and>
   hd (rmatch ic (Star (Cls P)) (s, cp)) = (dropWhile P s, cp)"
proof (induction s)
  case Nil
  show ?case by (simp add: rmatch.simps(6) rmatch.simps(2))
next
  case (Cons c cs)
  show ?case
  proof (cases "P c")
    case True
    then have "rmatch ic (Star (Cls P)) (c # cs, cp) =
        rmatch ic (Star (Cls P)) (cs, cp) @ [(c # cs, cp)]"
      by (subst rmatch.simps(6)) (simp add: rmatch.simps(2))
    with Cons True show ?thesis by simp
  next
    case False
    then have "rmatch ic (Star (Cls P)) (c # cs, cp) = [(c # cs, cp)]"
      by (subst rmatch.simps(6)) (simp add: rmatch.simps(2))
    with False show ?thesis by simp
  qed
qed

lemma rmatch_plus_cls:
  "rmatch ic (Plus (Cls P)) (c # cs, cp) = (if P c then rmatch ic (Star (Cls P)) (cs, cp) else [])"
  by (simp add: Plus_def rmatch.simps(4) rmatch.simps(2))

lemma collapse_Nil [simp]: "collapse [] = []"
  by (simp add: collapse_def Plus_def space_def rmatch.simps(4) rmatch.simps(2))

lemma collapse_Cons:
  "collapse (c # cs) =
     (if is_space c then cu CHR '' '' # collapse (dropWhile is_space cs) else c # collapse cs)"
proof (cases "is_space c")
  case True
  obtain st rest where m: "rmatch False (Star (Cls is_space)) (cs, []) = st # rest"
    and st: "st = (dropWhile is_space cs, [])"
    using rmatch_star_cls [of False is_space cs "[]"]
    by (cases "rmatch False (Star (Cls is_space)) (cs, [])") auto
  have "length (dropWhile is_space cs) < Suc (length cs)"
    using length_dropWhile_le [of is_space cs] by simp
  with True m st show ?thesis
    by (simp add: collapse_def space_def rmatch_plus_cls lit_def)
next
  case False
  then show ?thesis
    by (simp add: collapse_def space_def rmatch_plus_cls lit_def)
qed

lemma collapse_set: "set (collapse s) \<subseteq> insert (cu CHR '' '') (set s)"
proof (induction s rule: length_induct)
  case (1 s)
  show ?case
  proof (cases s)
    case Nil
    then show ?thesis by simp
  next
    case (Cons c cs)
    have "length (dropWhile is_space cs) < length s"
      using length_dropWhile_le [of is_space cs] Cons by simp
    with 1 have a: "set (collapse (dropWhile is_space cs)) \<subseteq> insert (cu CHR '' '') (set (dropWhile is_space cs))"
      by blast
    from 1 Cons have b: "set (collapse cs) \<subseteq> insert (cu CHR '' '') (set cs)"
      by simp
    from a b Cons show ?thesis
      by (auto simp: collapse_Cons dest: set_dropWhileD)
  qed
qed



lemma squeezed_fixed: "squeezed t \<Longrightarrow> collapse t = t"
proof (induction t)
  case Nil
  then show ?case by simp
next
  case (Cons c cs)
  show ?case
  proof (cases "is_space c")
    case True
    with Cons.prems have c: "c = cu CHR '' ''" and h: "cs = [] \<or> \<not> is_space (hd cs)" and s: "squeezed cs"
      by simp_all
    from h have "dropWhile is_space cs = cs"
      by (simp add: dropWhile_eq_self_iff)
    with True c s Cons.IH show ?thesis
      by (simp add: collapse_Cons)
  next
    case False
    with Cons show ?thesis by (simp add: collapse_Cons)
  qed
qed






lemma trim_set: "set (trim s) \<subseteq> set s"
  by (auto simp: trim_def dest!: set_dropWhileD)









subsection \<open>Truncation of the snapshot\<close>

lemma squeezed_letters: "squeezed (letters n)"
  unfolding letters_def by (induction n) (simp_all add: is_space_def cu_def)

lemma cleanHtml_letters: "cleanHtml (letters n) = letters n"
proof -
  have "plain (letters n)"
    by (simp add: plain_def letters_def cu_def)
  then have "fold apply_replacement markup_replacements (letters n) = letters n"
    by (rule markup_plain)
  moreover have "collapse (letters n) = letters n"
    by (intro squeezed_fixed squeezed_letters)
  moreover have "trim (letters n) = letters n"
    by (simp add: trim_def letters_def is_space_def cu_def)
  ultimately show ?thesis
    by (simp add: cleanHtml_def)
qed

lemma snapshot_html_letters: "snapshot_html lower (letters_doc n) [] = Inr (letters n)"
  by (simp add: snapshot_html_def letters_doc_def baseElements_def with_head_def cleanHtml_letters)

lemma snapshot_letters:
  "BrowserSnapshotDomAction_execute a (engine_letters n) None None one_tab =
     (Inr (), one_tab\<lparr>sink := [tagged a (lit ''DOM snapshot captured and saved to location rendering'')],
                      rendering := Some (truncated (letters n))\<rparr>)"
  by (simp add: BrowserSnapshotDomAction_execute_def engine_letters_def engine_ok_def
      require_page_def getChromePage_def truthy_def map_first_value_def one_tab_def initial_def
      snapshot_html_letters catch_report_def report_def addSystemMessage_def)

text \<open>
  C2, as stated, fails: nothing records whether the snapshot was truncated. A page of
  100001 letters (truncated) and a page of 100000 letters (stored whole) leave the
  action with the same result and the same state: the same stored markup, the same
  reported line, and nothing else.
\<close>

theorem truncation_is_not_flagged:
  "snapshot_html (toLowerCase (engine_letters 100001)) (letters_doc 100001) [] = Inr (letters 100001) \<and>
   length (letters 100001) > limit \<and>
   snapshot_html (toLowerCase (engine_letters 100000)) (letters_doc 100000) [] = Inr (letters 100000) \<and>
   length (letters 100000) \<le> limit \<and>
   BrowserSnapshotDomAction_execute (lit ''samo'') (engine_letters 100001) None None one_tab =
   BrowserSnapshotDomAction_execute (lit ''samo'') (engine_letters 100000) None None one_tab"
  by (simp add: snapshot_html_letters snapshot_letters truncated_def limit_def letters_def)

text \<open>
  C2, amended. When a snapshot reaches the store and its report is taken by the sink,
  the stored markup is the first 100000 code units of the extracted markup if that is
  longer than 100000 code units (and then has exactly that length), and the extracted
  markup itself otherwise. The action returns, and the state it leaves is the state
  before with the stored markup in the rendering slot and the one reported line added
  to the sink: nothing else is recorded, and the line is the same in both cases.
\<close>

theorem snapshot_truncation:
  assumes "require_page tabName s = Inr p"
    and "page_evaluate eng p (SetSnapshotOpts (case searchTerm of None \<Rightarrow> [] | Some t \<Rightarrow> t)) = None"
    and "page_count eng p (lit ''body'') = Inr n" and "n \<noteq> 0"
    and "page_document eng p = Inr doc"
    and "snapshot_html (toLowerCase eng) doc (case searchTerm of None \<Rightarrow> [] | Some t \<Rightarrow> t) = Inr html"
    and "updateLocationStateRendering eng (truncated html) = None"
    and "location_addSystemMessage eng
           (tagged a (lit ''DOM snapshot captured and saved to location rendering'')) = None"
  shows "BrowserSnapshotDomAction_execute a eng searchTerm tabName s =
           (Inr (), s\<lparr>rendering := Some (truncated html),
                      sink := sink s @ [tagged a (lit ''DOM snapshot captured and saved to location rendering'')]\<rparr>) \<and>
         (length html > limit \<longrightarrow> truncated html = take limit html \<and> length (truncated html) = limit) \<and>
         (length html \<le> limit \<longrightarrow> truncated html = html)"
  using assms
  by (simp add: BrowserSnapshotDomAction_execute_def catch_report_def report_def addSystemMessage_def
      truncated_def Let_def)

theorem snapshot_truncation_witness:
  "rendering (snd (BrowserSnapshotDomAction_execute (lit ''samo'') (engine_letters 100001) None None one_tab)) =
     Some (letters 100000) \<and>
   length (letters 100001) > limit \<and>
   truncated (letters 100001) = take limit (letters 100001) \<and>
   rendering (snd (BrowserSnapshotDomAction_execute (lit ''samo'') (engine_letters 5) None None one_tab)) =
     Some (letters 5) \<and>
   length (letters 5) \<le> limit"
proof -
  have p: "require_page None one_tab = Inr 7"
    by (simp add: require_page_def getChromePage_def truthy_def map_first_value_def one_tab_def)
  have e: "page_evaluate (engine_letters k) 7 (SetSnapshotOpts (case None of None \<Rightarrow> [] | Some t \<Rightarrow> t)) = None" for k
    by (simp add: engine_letters_def engine_ok_def)
  have c: "page_count (engine_letters k) 7 (lit ''body'') = Inr 1" for k
    by (simp add: engine_letters_def engine_ok_def)
  have d: "page_document (engine_letters k) 7 = Inr (letters_doc k)" for k
    by (simp add: engine_letters_def)
  have h: "snapshot_html (toLowerCase (engine_letters k)) (letters_doc k)
      (case None of None \<Rightarrow> [] | Some t \<Rightarrow> t) = Inr (letters k)" for k
    by (simp add: snapshot_html_letters)
  have u: "updateLocationStateRendering (engine_letters k) (truncated (letters k)) = None" for k
    by (simp add: engine_letters_def engine_ok_def)
  have m: "location_addSystemMessage (engine_letters k)
      (tagged (lit ''samo'') (lit ''DOM snapshot captured and saved to location rendering'')) = None" for k
    by (simp add: engine_letters_def engine_ok_def)
  have one: "(1::nat) \<noteq> 0" by simp
  have big: "length (letters 100001) > limit"
    by (simp add: limit_def letters_def)
  have small: "length (letters 5) \<le> limit"
    by (simp add: limit_def letters_def)
  note A = snapshot_truncation [OF p e [of 100001] c [of 100001] one d [of 100001] h [of 100001]
      u [of 100001] m [of 100001]]
  note B = snapshot_truncation [OF p e [of 5] c [of 5] one d [of 5] h [of 5] u [of 5] m [of 5]]
  from A big have A1: "rendering (snd (BrowserSnapshotDomAction_execute (lit ''samo'') (engine_letters 100001)
      None None one_tab)) = Some (truncated (letters 100001))"
    and A2: "truncated (letters 100001) = take limit (letters 100001)"
    by simp_all
  from B small have B1: "rendering (snd (BrowserSnapshotDomAction_execute (lit ''samo'') (engine_letters 5)
      None None one_tab)) = Some (truncated (letters 5))"
    and B2: "truncated (letters 5) = letters 5"
    by simp_all
  have t: "take limit (letters 100001) = letters 100000"
    by (simp add: limit_def letters_def)
  show ?thesis
    using A1 A2 B1 B2 big small t by simp
qed


end
